theory Spec2Isabelle
  imports Main
begin

text \<open>
  A shallow embedding of the worktree tools: the functions of \<open>src/utils/username.ts\<close>,
  \<open>src/utils/git.ts\<close> and \<open>src/utils/github.ts\<close> and the operations built on them (list,
  create, cleanup, createPR). Each function keeps the name and the order of the steps of its
  source. The external collaborators (the git client, the file system, child processes, the
  hosted provider) are parameters: records of the answers they give. A function that can
  throw returns a sum with the exception on the left, and an operation that changes the world
  also returns the list of the changes it attempted. The library functions of JavaScript and
  Node.js that the sources call are written out first.
\<close>

section \<open>JavaScript strings\<close>

text \<open>
  A JavaScript string is modelled as a \<^typ>\<open>string\<close>: a list of code units, each read as the
  code point of the same number (U+0000 to U+00FF). Code units above U+00FF are outside the
  model. The library functions of the language that the sources call (\<open>trim\<close>,
  \<open>toLowerCase\<close>, \<open>replace\<close> with the two regular expressions, \<open>split\<close>, \<open>startsWith\<close>,
  \<open>substring\<close>, \<open>includes\<close>, \<open>parseInt\<close>) are written out on that range.
\<close>

definition code :: "char \<Rightarrow> nat" where
  "code c = of_char c"

text \<open>The class \<open>\s\<close> of a regular expression, which is also what \<open>trim\<close> removes: tab, line
  feed, vertical tab, form feed, carriage return, space and no-break space.\<close>

definition isSpace :: "char \<Rightarrow> bool" where
  "isSpace c = (code c \<in> {9, 10, 11, 12, 13, 32, 160})"

text \<open>The characters that \<open>.\<close> of a regular expression does not match.\<close>

definition isLineTerminator :: "char \<Rightarrow> bool" where
  "isLineTerminator c = (code c \<in> {10, 13})"

definition trim :: "string \<Rightarrow> string" where
  "trim s = rev (dropWhile isSpace (rev (dropWhile isSpace s)))"

definition lowerChar :: "char \<Rightarrow> char" where
  "lowerChar c =
     (let n = code c
      in if (65 \<le> n \<and> n \<le> 90) \<or> (192 \<le> n \<and> n \<le> 222 \<and> n \<noteq> 215)
         then char_of (n + 32) else c)"

definition toLowerCase :: "string \<Rightarrow> string" where
  "toLowerCase s = map lowerChar s"

text \<open>\<open>s.replace(/\s+/g, '-')\<close>: every maximal run of white space becomes one hyphen.\<close>

function replaceSpaceRuns :: "string \<Rightarrow> string" where
  "replaceSpaceRuns [] = []"
| "replaceSpaceRuns (c # cs) =
     (if isSpace c then CHR ''-'' # replaceSpaceRuns (dropWhile isSpace cs)
      else c # replaceSpaceRuns cs)"
  by pat_completeness auto
termination
  by (relation "measure length") (auto simp: less_Suc_eq_le length_dropWhile_le)

text \<open>The class \<open>[a-z0-9-]\<close>.\<close>

definition isSlugChar :: "char \<Rightarrow> bool" where
  "isSlugChar c =
     (let n = code c in (97 \<le> n \<and> n \<le> 122) \<or> (48 \<le> n \<and> n \<le> 57) \<or> n = 45)"

text \<open>\<open>s.replace(/[^a-z0-9-]/g, '')\<close>.\<close>

definition stripNonSlug :: "string \<Rightarrow> string" where
  "stripNonSlug s = filter isSlugChar s"

text \<open>\<open>s.startsWith(p)\<close>, \<open>s.substring(n)\<close> and \<open>s.includes(p)\<close>.\<close>

definition startsWith :: "string \<Rightarrow> string \<Rightarrow> bool" where
  "startsWith s p = (take (length p) s = p)"

definition substring :: "string \<Rightarrow> nat \<Rightarrow> string" where
  "substring s n = drop n s"

fun includesStr :: "string \<Rightarrow> string \<Rightarrow> bool" where
  "includesStr [] p = (p = [])"
| "includesStr (c # cs) p = (startsWith (c # cs) p \<or> includesStr cs p)"

text \<open>\<open>s.split(sep)\<close> for a separator of one character: \<open>''''.split(sep)\<close> is \<open>['''']\<close>.\<close>

fun split :: "char \<Rightarrow> string \<Rightarrow> string list" where
  "split sep [] = [[]]"
| "split sep (c # cs) =
     (if c = sep then [] # split sep cs
      else (case split sep cs of [] \<Rightarrow> [[c]] | seg # segs \<Rightarrow> (c # seg) # segs))"

text \<open>\<open>parts.join(sep)\<close>.\<close>

fun joinWith :: "string \<Rightarrow> string list \<Rightarrow> string" where
  "joinWith sep [] = []"
| "joinWith sep [s] = s"
| "joinWith sep (s # t # ts) = s @ sep @ joinWith sep (t # ts)"

section \<open>Errors and external collaborators\<close>

text \<open>
  Every \<open>throw\<close> of the sources is a value of \<open>error\<close>; a function that can throw returns
  \<open>error + 'a\<close>, with \<open>Inl\<close> for the exception. \<open>Collaborator\<close> is an exception raised by an
  external collaborator (git, the file system, a child process, the hosting API) and passed on
  unchanged.
\<close>

datatype error =
    TicketRequired
  | BranchNameRequired
  | IdentityUnresolved
  | NotARepository
  | NoTrunkFound
  | CannotCreateFromTrunk
  | NoCommits
  | AuthenticationRequired
  | NoOriginRemote
  | NotGitHubRemote
  | InstallFailed string
  | Collaborator string

record remote =
  remote_name :: string
  refs_fetch :: string

text \<open>
  The simple-git client. Each field is the answer of one method of the client, as a function
  of the base directory the client was opened on (\<open>simpleGit(dir)\<close>, \<open>None\<close> for
  \<open>simpleGit()\<close>) and of the method's arguments. A call that is repeated with the same
  arguments during one operation gets the same answer.
\<close>

record git =
  raw :: "string option \<Rightarrow> string list \<Rightarrow> error + string"
  getRemotes :: "string option \<Rightarrow> error + remote list"
  fetch :: "string option \<Rightarrow> string \<Rightarrow> error + unit"
  status_files :: "string option \<Rightarrow> error + string list"
  revparse :: "string option \<Rightarrow> string list \<Rightarrow> error + string"
  log_messages :: "string option \<Rightarrow> string \<Rightarrow> string \<Rightarrow> error + string list"
  branch_all :: "string option \<Rightarrow> error + string list"
  getConfig :: "string option \<Rightarrow> string \<Rightarrow> error + string option"
  deleteLocalBranch :: "string option \<Rightarrow> string \<Rightarrow> error + unit"

text \<open>
  The host: the file system (\<open>fs/promises\<close>, \<open>glob\<close>), child processes (\<open>execAsync\<close>, with
  the command and its working directory) and the environment variables that the sources read.
\<close>

record host =
  readFile :: "string \<Rightarrow> error + string"
  access :: "string \<Rightarrow> error + unit"
  readdir :: "string \<Rightarrow> error + string list"
  rmdir :: "string \<Rightarrow> error + unit"
  mkdir :: "string \<Rightarrow> error + unit"
  copyFile :: "string \<Rightarrow> string \<Rightarrow> error + unit"
  glob :: "string \<Rightarrow> string \<Rightarrow> error + string list"
  execAsync :: "string \<Rightarrow> string option \<Rightarrow> error + string"
  env_HOME :: "string option"
  env_GITHUB_TOKEN :: "string option"

section \<open>src/utils/username.ts\<close>

datatype source = manual_config | github_cli | git_config

record UsernameResult =
  username :: string
  source :: source

text \<open>\<open>config.match(/USERNAME=(.+)/)\<close>: the first capture group of the leftmost match, that is
  the rest of the line after the first \<open>USERNAME=\<close> that is followed by at least one character
  of the same line.\<close>

fun matchUsername :: "string \<Rightarrow> string option" where
  "matchUsername [] = None"
| "matchUsername (c # cs) =
     (if startsWith (c # cs) ''USERNAME=''
         \<and> takeWhile (\<lambda>x. \<not> isLineTerminator x) (substring (c # cs) 9) \<noteq> []
      then Some (takeWhile (\<lambda>x. \<not> isLineTerminator x) (substring (c # cs) 9))
      else matchUsername cs)"

definition detectUsername :: "git \<Rightarrow> host \<Rightarrow> string option \<Rightarrow> error + UsernameResult" where
  "detectUsername g h configPath =
     (let fromGit =
            (case getConfig g None ''user.name'' of
               Inl _ \<Rightarrow> Inl IdentityUnresolved
             | Inr value \<Rightarrow>
                 (case value of
                    None \<Rightarrow> Inl IdentityUnresolved
                  | Some v \<Rightarrow>
                      if v \<noteq> [] then
                        (let username = stripNonSlug (replaceSpaceRuns (toLowerCase v))
                         in if length username > 0
                            then Inr \<lparr>username = username, source = git_config\<rparr>
                            else Inl IdentityUnresolved)
                      else Inl IdentityUnresolved));
          fromGh =
            (case execAsync h ''gh api user --jq .login'' None of
               Inl _ \<Rightarrow> fromGit
             | Inr stdout \<Rightarrow>
                 (let username = trim stdout
                  in if username \<noteq> [] \<and> length username > 0
                     then Inr \<lparr>username = username, source = github_cli\<rparr>
                     else fromGit))
      in case configPath of
           None \<Rightarrow> fromGh
         | Some p \<Rightarrow>
             if p \<noteq> [] then
               (case readFile h p of
                  Inl _ \<Rightarrow> fromGh
                | Inr config \<Rightarrow>
                    (case matchUsername config of
                       None \<Rightarrow> fromGh
                     | Some m1 \<Rightarrow>
                         if m1 \<noteq> []
                         then Inr \<lparr>username = trim m1, source = manual_config\<rparr>
                         else fromGh))
             else fromGh)"

definition normalizeUsername :: "string \<Rightarrow> string" where
  "normalizeUsername name = stripNonSlug (replaceSpaceRuns (toLowerCase name))"

subsection \<open>The identity sources as the specification lists them\<close>

text \<open>The three sources of section 4.1 of the specification, each on its own, and their
  combination "strictly ordered, first success wins"; \<open>detectUsername\<close> is compared with it.\<close>

definition overrideSource :: "host \<Rightarrow> string option \<Rightarrow> UsernameResult option" where
  "overrideSource h configPath =
     (case configPath of
        None \<Rightarrow> None
      | Some p \<Rightarrow>
          if p = [] then None
          else (case readFile h p of
                  Inl _ \<Rightarrow> None
                | Inr config \<Rightarrow>
                    map_option (\<lambda>v. \<lparr>username = trim v, source = manual_config\<rparr>)
                      (matchUsername config)))"

definition hostedLoginSource :: "host \<Rightarrow> UsernameResult option" where
  "hostedLoginSource h =
     (case execAsync h ''gh api user --jq .login'' None of
        Inl _ \<Rightarrow> None
      | Inr out \<Rightarrow>
          if trim out = [] then None
          else Some \<lparr>username = trim out, source = github_cli\<rparr>)"

definition localConfigSource :: "git \<Rightarrow> UsernameResult option" where
  "localConfigSource g =
     (case getConfig g None ''user.name'' of
        Inr (Some v) \<Rightarrow>
          if normalizeUsername v = [] then None
          else Some \<lparr>username = normalizeUsername v, source = git_config\<rparr>
      | _ \<Rightarrow> None)"

fun firstSuccess :: "UsernameResult option list \<Rightarrow> error + UsernameResult" where
  "firstSuccess [] = Inl IdentityUnresolved"
| "firstSuccess (None # rest) = firstSuccess rest"
| "firstSuccess (Some r # rest) = Inr r"

text \<open>Collaborators in which every call fails, for building concrete worlds.\<close>

definition noGit :: git where
  "noGit = \<lparr>raw = (\<lambda>_ _. Inl (Collaborator ''git'')),
            getRemotes = (\<lambda>_. Inl (Collaborator ''git'')),
            fetch = (\<lambda>_ _. Inl (Collaborator ''git'')),
            status_files = (\<lambda>_. Inl (Collaborator ''git'')),
            revparse = (\<lambda>_ _. Inl (Collaborator ''git'')),
            log_messages = (\<lambda>_ _ _. Inl (Collaborator ''git'')),
            branch_all = (\<lambda>_. Inl (Collaborator ''git'')),
            getConfig = (\<lambda>_ _. Inl (Collaborator ''git'')),
            deleteLocalBranch = (\<lambda>_ _. Inl (Collaborator ''git''))\<rparr>"

definition noHost :: host where
  "noHost = \<lparr>readFile = (\<lambda>_. Inl (Collaborator ''ENOENT'')),
             access = (\<lambda>_. Inl (Collaborator ''ENOENT'')),
             readdir = (\<lambda>_. Inl (Collaborator ''ENOENT'')),
             rmdir = (\<lambda>_. Inl (Collaborator ''ENOENT'')),
             mkdir = (\<lambda>_. Inl (Collaborator ''EACCES'')),
             copyFile = (\<lambda>_ _. Inl (Collaborator ''ENOENT'')),
             glob = (\<lambda>_ _. Inl (Collaborator ''glob'')),
             execAsync = (\<lambda>_ _. Inl (Collaborator ''command not found'')),
             env_HOME = None,
             env_GITHUB_TOKEN = None\<rparr>"

section \<open>src/utils/git.ts: enumeration of worktrees\<close>

text \<open>
  A \<open>WorktreeInfo\<close> object. \<open>listWorktrees\<close> builds it as a \<open>Partial<WorktreeInfo>\<close> and
  casts it, so every field can be missing at run time: a field is \<open>None\<close> when the object does
  not have it.
\<close>

record WorktreeInfo =
  path :: "string option"
  branch :: "string option"
  head :: "string option"
  isMain :: "bool option"

definition emptyObject :: WorktreeInfo where
  "emptyObject = \<lparr>path = None, branch = None, head = None, isMain = None\<rparr>"

text \<open>The truth value of an optional string in a condition: missing and empty are false.\<close>

definition truthy :: "string option \<Rightarrow> bool" where
  "truthy v = (case v of None \<Rightarrow> False | Some s \<Rightarrow> s \<noteq> [])"

definition worktreeListArgs :: "string list" where
  "worktreeListArgs = [''worktree'', ''list'', ''--porcelain'']"

definition getMainRepoRoot :: "git \<Rightarrow> string option \<Rightarrow> error + string" where
  "getMainRepoRoot g cwd =
     (case raw g cwd worktreeListArgs of
        Inl e \<Rightarrow> Inl e
      | Inr output \<Rightarrow>
          (case find (\<lambda>line. startsWith line ''worktree '') (split CHR 0x0A output) of
             Some line \<Rightarrow> Inr (substring line (length ''worktree ''))
           | None \<Rightarrow> Inl NotARepository))"

text \<open>One turn of the loop of \<open>listWorktrees\<close> over the lines, on the pair of \<open>result\<close> and
  \<open>currentWorktree\<close>.\<close>

fun parseLine ::
  "WorktreeInfo list \<times> WorktreeInfo \<Rightarrow> string \<Rightarrow> WorktreeInfo list \<times> WorktreeInfo" where
  "parseLine (result, currentWorktree) line =
     (if startsWith line ''worktree '' then
        ((if truthy (path currentWorktree) then result @ [currentWorktree] else result),
         \<lparr>path = Some (substring line (length ''worktree '')), branch = None, head = None,
          isMain = Some False\<rparr>)
      else if startsWith line ''HEAD '' then
        (result, currentWorktree\<lparr>head := Some (substring line (length ''HEAD ''))\<rparr>)
      else if startsWith line ''branch '' then
        (result,
         currentWorktree\<lparr>branch := Some (substring line (length ''branch refs/heads/''))\<rparr>)
      else if line = [] then
        (if truthy (path currentWorktree) then (result @ [currentWorktree], emptyObject)
         else (result, currentWorktree))
      else (result, currentWorktree))"

definition markMain :: "WorktreeInfo list \<Rightarrow> WorktreeInfo list" where
  "markMain result =
     (if length result > 0 then result[0 := (result ! 0)\<lparr>isMain := Some True\<rparr>] else result)"

definition listWorktrees :: "git \<Rightarrow> string \<Rightarrow> error + WorktreeInfo list" where
  "listWorktrees g repoPath =
     (case raw g (Some repoPath) worktreeListArgs of
        Inl e \<Rightarrow> Inl e
      | Inr output \<Rightarrow>
          Inr (markMain (fst (foldl parseLine ([], emptyObject) (split CHR 0x0A output)))))"

section \<open>src/utils/git.ts: getWorktreeStatus\<close>

text \<open>
  \<open>parseInt(s, 10)\<close>: leading white space, an optional sign, then the longest run of decimal
  digits; \<open>None\<close> is \<open>NaN\<close>. A JavaScript number is modelled as an integer, which is exact
  for counts below \<open>2^53\<close>. \<open>orZero\<close> is \<open>x || 0\<close>.
\<close>

definition isDigit :: "char \<Rightarrow> bool" where
  "isDigit c = (48 \<le> code c \<and> code c \<le> 57)"

definition digitsValue :: "string \<Rightarrow> int" where
  "digitsValue ds = foldl (\<lambda>acc c. acc * 10 + (int (code c) - 48)) 0 ds"

definition parseInt :: "string \<Rightarrow> int option" where
  "parseInt s =
     (let t = dropWhile isSpace s;
          negative = (t \<noteq> [] \<and> hd t = CHR ''-'');
          u = (if t \<noteq> [] \<and> (hd t = CHR ''-'' \<or> hd t = CHR ''+'') then tl t else t);
          ds = takeWhile isDigit u
      in if ds = [] then None
         else Some (if negative then - digitsValue ds else digitsValue ds))"

definition orZero :: "int option \<Rightarrow> int" where
  "orZero v = (case v of None \<Rightarrow> 0 | Some n \<Rightarrow> n)"

record WorktreeStatus =
  clean :: bool
  ahead :: int
  behind :: int
  uncommitted :: bool

definition aheadBehindOf :: "git \<Rightarrow> string option \<Rightarrow> int \<times> int" where
  "aheadBehindOf g dir =
     (case revparse g dir [''--abbrev-ref'', ''HEAD''] of
        Inl _ \<Rightarrow> (0, 0)
      | Inr branchName \<Rightarrow>
          (case revparse g dir [''--abbrev-ref'', branchName @ (CHR 0x40 # ''{upstream}'')] of
             Inl _ \<Rightarrow> (0, 0)
           | Inr tracking \<Rightarrow>
               (case raw g dir [''rev-list'', ''--left-right'', ''--count'',
                                tracking @ ''...'' @ branchName] of
                  Inl _ \<Rightarrow> (0, 0)
                | Inr aheadBehind \<Rightarrow>
                    (let parts = split CHR 0x09 (trim aheadBehind)
                     in if length parts = 2
                        then (orZero (parseInt (parts ! 1)), orZero (parseInt (parts ! 0)))
                        else (0, 0)))))"

definition getWorktreeStatus :: "git \<Rightarrow> string option \<Rightarrow> error + WorktreeStatus" where
  "getWorktreeStatus g worktreePath =
     (case status_files g worktreePath of
        Inl e \<Rightarrow> Inl e
      | Inr files \<Rightarrow>
          (let isClean = (length files = 0);
               (aheadCount, behindCount) = aheadBehindOf g worktreePath
           in Inr \<lparr>clean = isClean, ahead = aheadCount, behind = behindCount,
                   uncommitted = (\<not> isClean)\<rparr>))"

section \<open>src/tools/list-worktrees.ts\<close>

record WorktreeListItem = WorktreeInfo +
  status :: "WorktreeStatus option"

record ListWorktreesResult =
  worktrees :: "WorktreeListItem list"
  mainRepoPath :: string

definition withStatus :: "git \<Rightarrow> WorktreeInfo \<Rightarrow> WorktreeListItem" where
  "withStatus g worktree =
     (if isMain worktree = Some True then WorktreeInfo.extend worktree \<lparr>status = None\<rparr>
      else (case getWorktreeStatus g (path worktree) of
              Inr s \<Rightarrow> WorktreeInfo.extend worktree \<lparr>status = Some s\<rparr>
            | Inl _ \<Rightarrow> WorktreeInfo.extend worktree \<lparr>status = None\<rparr>))"

definition listWorktreesTool :: "git \<Rightarrow> string option \<Rightarrow> error + ListWorktreesResult" where
  "listWorktreesTool g cwd =
     (case getMainRepoRoot g cwd of
        Inl e \<Rightarrow> Inl e
      | Inr mainRoot \<Rightarrow>
          (case listWorktrees g mainRoot of
             Inl e \<Rightarrow> Inl e
           | Inr listed \<Rightarrow>
               (let worktreesWithStatus = map (withStatus g) listed;
                    filteredWorktrees = filter (\<lambda>w. isMain w \<noteq> Some True) worktreesWithStatus
                in Inr \<lparr>worktrees = filteredWorktrees, mainRepoPath = mainRoot\<rparr>)))"

section \<open>What git answers to the queries of getWorktreeStatus\<close>

text \<open>
  The collaborator behind \<open>getWorktreeStatus\<close>, as git documents it. A repository state has
  the files with pending modifications, the name that \<open>rev-parse --abbrev-ref HEAD\<close> prints,
  the upstream configured for a branch (if any) and the commits reachable from a ref. The
  upstream of a branch is asked for as the branch name followed by an at sign and
  \<open>{upstream}\<close>.
  \<open>rev-list --left-right --count A...B\<close> prints the number of commits reachable from \<open>A\<close> and
  not from \<open>B\<close>, a tab, the number reachable from \<open>B\<close> and not from \<open>A\<close>, and a line feed.
\<close>

record repo =
  modified :: "string list"
  checkedOut :: string
  upstreamOf :: "string \<Rightarrow> string option"
  reachable :: "string \<Rightarrow> nat list"

function showNat :: "nat \<Rightarrow> string" where
  "showNat n =
     (if n < 10 then [char_of (48 + n)] else showNat (n div 10) @ [char_of (48 + n mod 10)])"
  by pat_completeness auto
termination
  by (relation "measure id") auto

declare showNat.simps [simp del]

definition countOnly :: "nat list \<Rightarrow> nat list \<Rightarrow> nat" where
  "countOnly a b = length (remdups (filter (\<lambda>c. c \<notin> set b) a))"

definition gitOf :: "repo \<Rightarrow> git" where
  "gitOf r =
     noGit\<lparr>
       status_files := (\<lambda>_. Inr (modified r)),
       revparse := (\<lambda>_ args.
         if args = [''--abbrev-ref'', ''HEAD''] then Inr (checkedOut r)
         else if args = [''--abbrev-ref'', checkedOut r @ (CHR 0x40 # ''{upstream}'')] then
           (case upstreamOf r (checkedOut r) of
              Some t \<Rightarrow> Inr t
            | None \<Rightarrow> Inl (Collaborator ''no upstream configured''))
         else Inl (Collaborator ''unknown revision'')),
       raw := (\<lambda>_ args.
         case upstreamOf r (checkedOut r) of
           None \<Rightarrow> Inl (Collaborator ''unknown revision'')
         | Some t \<Rightarrow>
             if args = [''rev-list'', ''--left-right'', ''--count'', t @ ''...'' @ checkedOut r]
             then Inr (showNat (countOnly (reachable r t) (reachable r (checkedOut r)))
                       @ [CHR 0x09]
                       @ showNat (countOnly (reachable r (checkedOut r)) (reachable r t))
                       @ [CHR 0x0A])
             else Inl (Collaborator ''unknown revision''))\<rparr>"

section \<open>The path module of Node.js (POSIX)\<close>

text \<open>
  \<open>path.join\<close>, \<open>path.dirname\<close> and \<open>path.basename\<close> as Node.js defines them for POSIX paths.
  \<open>normalizeSegments\<close> is the loop of \<open>normalizeString\<close> on the segments between slashes: an
  empty segment and \<open>.\<close> are dropped, \<open>..\<close> removes the segment before it, or stays when
  there is none to remove and the path is relative.
\<close>

definition normalizeSegment :: "bool \<Rightarrow> string list \<Rightarrow> string \<Rightarrow> string list" where
  "normalizeSegment allowAboveRoot res seg =
     (if seg = [] \<or> seg = ''.'' then res
      else if seg = ''..'' then
        (if res \<noteq> [] \<and> last res \<noteq> ''..'' then butlast res
         else if allowAboveRoot then res @ [''..''] else res)
      else res @ [seg])"

definition normalizeSegments :: "bool \<Rightarrow> string list \<Rightarrow> string list" where
  "normalizeSegments allowAboveRoot segs = foldl (normalizeSegment allowAboveRoot) [] segs"

definition normalize :: "string \<Rightarrow> string" where
  "normalize p =
     (if p = [] then ''.''
      else
        (let isAbsolute = (hd p = CHR ''/'');
             trailingSeparator = (last p = CHR ''/'');
             q = joinWith ''/'' (normalizeSegments (\<not> isAbsolute) (split CHR ''/'' p))
         in if q = [] then (if isAbsolute then ''/'' else if trailingSeparator then ''./'' else ''.'')
            else (if isAbsolute then ''/'' else []) @ q
                 @ (if trailingSeparator then ''/'' else [])))"

definition join :: "string list \<Rightarrow> string" where
  "join args =
     (let joined = filter (\<lambda>arg. arg \<noteq> []) args
      in if joined = [] then ''.'' else normalize (joinWith ''/'' joined))"

definition dirname :: "string \<Rightarrow> string" where
  "dirname p =
     (if p = [] then ''.''
      else
        (let hasRoot = (hd p = CHR ''/'');
             upToEnd = dropWhile (\<lambda>c. c \<noteq> CHR ''/'') (dropWhile (\<lambda>c. c = CHR ''/'') (rev (tl p)))
         in if upToEnd = [] then (if hasRoot then ''/'' else ''.'')
            else if hasRoot \<and> length upToEnd = 1 then ''//''
            else take (length upToEnd) p))"

definition basename :: "string \<Rightarrow> string" where
  "basename p = rev (takeWhile (\<lambda>c. c \<noteq> CHR ''/'') (dropWhile (\<lambda>c. c = CHR ''/'') (rev p)))"

section \<open>src/utils/git.ts: repository name, trunk, creation\<close>

text \<open>\<open>url.match(/\/([^/]+?)(\.git)?$/)\<close>: the first capture group. A match starts at the last
  slash and needs a character after it; the group is what follows that slash, without a
  final \<open>.git\<close> when something is left before it.\<close>

definition matchRepoName :: "string \<Rightarrow> string option" where
  "matchRepoName url =
     (let rest = rev (takeWhile (\<lambda>c. c \<noteq> CHR ''/'') (rev url))
      in if CHR ''/'' \<notin> set url \<or> rest = [] then None
         else if length rest > 4 \<and> drop (length rest - 4) rest = ''.git''
         then Some (take (length rest - 4) rest)
         else Some rest)"

definition getRepoName :: "git \<Rightarrow> string \<Rightarrow> string" where
  "getRepoName g repoPath =
     (let fallback = toLowerCase (basename repoPath)
      in case getRemotes g (Some repoPath) of
           Inl _ \<Rightarrow> fallback
         | Inr remotes \<Rightarrow>
             (case find (\<lambda>r. remote_name r = ''origin'') remotes of
                None \<Rightarrow> fallback
              | Some originRemote \<Rightarrow>
                  if refs_fetch originRemote \<noteq> [] then
                    (case matchRepoName (refs_fetch originRemote) of
                       None \<Rightarrow> fallback
                     | Some m1 \<Rightarrow> if m1 \<noteq> [] then toLowerCase m1 else fallback)
                  else fallback))"

definition getDefaultBranch :: "git \<Rightarrow> string \<Rightarrow> error + string" where
  "getDefaultBranch g repoPath =
     (case raw g (Some repoPath)
             [''show-ref'', ''--verify'', ''--quiet'', ''refs/remotes/origin/main''] of
        Inr _ \<Rightarrow> Inr ''origin/main''
      | Inl _ \<Rightarrow>
          (case raw g (Some repoPath)
                  [''show-ref'', ''--verify'', ''--quiet'', ''refs/remotes/origin/master''] of
             Inr _ \<Rightarrow> Inr ''origin/master''
           | Inl _ \<Rightarrow> Inl NoTrunkFound))"

section \<open>Operations that change the world\<close>

text \<open>
  An operation that changes the repository, the file system or the hosted provider returns
  the list of the changes it attempted, in order, beside its result. Queries are not listed.
  \<open>perform\<close> attempts one change, with the answer of the collaborator; \<open>andThen\<close> is
  sequencing, where an exception skips what follows; \<open>tryCatch\<close> is \<open>try/catch\<close>.
\<close>

record PullRequest =
  pr_owner :: string
  pr_repo :: string
  pr_title :: string
  pr_body :: string
  pr_head :: string
  pr_base :: string
  pr_draft :: bool

datatype effect =
    GitFetch "string option" string
  | GitRaw "string option" "string list"
  | GitDeleteLocalBranch "string option" string
  | FsRmdir string
  | FsMkdir string
  | FsCopyFile string string
  | Exec string "string option"
  | PullsCreate PullRequest

type_synonym 'a action = "effect list \<times> (error + 'a)"

definition ret :: "'a \<Rightarrow> 'a action" where
  "ret x = ([], Inr x)"

definition throw :: "error \<Rightarrow> 'a action" where
  "throw e = ([], Inl e)"

definition query :: "error + 'a \<Rightarrow> 'a action" where
  "query answer = ([], answer)"

definition perform :: "effect \<Rightarrow> error + 'a \<Rightarrow> 'a action" where
  "perform change answer = ([change], answer)"

definition andThen :: "'a action \<Rightarrow> ('a \<Rightarrow> 'b action) \<Rightarrow> 'b action" where
  "andThen m f =
     (case snd m of
        Inl e \<Rightarrow> (fst m, Inl e)
      | Inr x \<Rightarrow> (fst m @ fst (f x), snd (f x)))"

definition tryCatch :: "'a action \<Rightarrow> (error \<Rightarrow> 'a action) \<Rightarrow> 'a action" where
  "tryCatch m handler =
     (case snd m of
        Inl e \<Rightarrow> (fst m @ fst (handler e), snd (handler e))
      | Inr x \<Rightarrow> m)"

definition createWorktree ::
  "git \<Rightarrow> string \<Rightarrow> string \<Rightarrow> string \<Rightarrow> string option \<Rightarrow> unit action" where
  "createWorktree g repoPath targetPath newBranch baseBranch =
     andThen (perform (GitFetch (Some repoPath) ''origin'') (fetch g (Some repoPath) ''origin''))
       (\<lambda>_. andThen (case baseBranch of
                        None \<Rightarrow> query (getDefaultBranch g repoPath)
                      | Some b \<Rightarrow> if b \<noteq> [] then ret b else query (getDefaultBranch g repoPath))
         (\<lambda>base. andThen
             (perform (GitRaw (Some repoPath)
                         [''worktree'', ''add'', targetPath, ''-b'', newBranch, base])
                (raw g (Some repoPath)
                   [''worktree'', ''add'', targetPath, ''-b'', newBranch, base]))
             (\<lambda>_. ret ())))"

section \<open>src/utils/git.ts: dependencies and environment files\<close>

record InstallResult =
  success :: bool
  packageManager :: "string option"

definition detectPackageManager :: "host \<Rightarrow> string \<Rightarrow> string option" where
  "detectPackageManager h dir =
     (case access h (join [dir, ''pnpm-lock.yaml'']) of
        Inr _ \<Rightarrow> Some ''pnpm''
      | Inl _ \<Rightarrow>
          (case access h (join [dir, ''package-lock.json'']) of
             Inr _ \<Rightarrow> Some ''npm''
           | Inl _ \<Rightarrow>
               (case access h (join [dir, ''yarn.lock'']) of
                  Inr _ \<Rightarrow> Some ''yarn''
                | Inl _ \<Rightarrow> None)))"

definition installDependencies :: "host \<Rightarrow> string \<Rightarrow> InstallResult action" where
  "installDependencies h dir =
     (case detectPackageManager h dir of
        None \<Rightarrow> ret \<lparr>success = False, packageManager = None\<rparr>
      | Some pm \<Rightarrow>
          tryCatch
            (andThen (perform (Exec (pm @ '' install'') (Some dir))
                        (execAsync h (pm @ '' install'') (Some dir)))
               (\<lambda>_. ret \<lparr>success = True, packageManager = Some pm\<rparr>))
            (\<lambda>_. throw (InstallFailed pm)))"

text \<open>The loop of \<open>copyEnvFiles\<close> over the files found, with the count so far.\<close>

fun copyEach :: "host \<Rightarrow> string \<Rightarrow> string \<Rightarrow> string list \<Rightarrow> nat \<Rightarrow> nat action" where
  "copyEach h fromRoot toRoot [] copiedCount = ret copiedCount"
| "copyEach h fromRoot toRoot (envFile # envFiles) copiedCount =
     (let sourcePath = join [fromRoot, envFile];
          targetPath = join [toRoot, envFile];
          targetDir = dirname targetPath
      in andThen (perform (FsMkdir targetDir) (mkdir h targetDir))
           (\<lambda>_. andThen (perform (FsCopyFile sourcePath targetPath)
                            (copyFile h sourcePath targetPath))
              (\<lambda>_. copyEach h fromRoot toRoot envFiles (copiedCount + 1))))"

definition copyEnvFiles :: "host \<Rightarrow> string \<Rightarrow> string \<Rightarrow> nat action" where
  "copyEnvFiles h fromRoot toRoot =
     andThen (query (glob h ''.env*'' fromRoot))
       (\<lambda>envFiles. copyEach h fromRoot toRoot envFiles 0)"

section \<open>The create operation (createWorktreeTool)\<close>

text \<open>The branch name and the path that \<open>createWorktreeTool\<close> computes from the main
  checkout, the handle, the repository name, the ticket and the description.\<close>

record WorktreeCreationPlan =
  fullBranchName :: string
  plannedPath :: string

definition planWorktree ::
  "string \<Rightarrow> string \<Rightarrow> string \<Rightarrow> string \<Rightarrow> string \<Rightarrow> WorktreeCreationPlan" where
  "planWorktree mainRepoRoot handle repo ticket branchName =
     (let normalizedBranchName = stripNonSlug (replaceSpaceRuns (toLowerCase branchName));
          worktreesDir = join [mainRepoRoot, ''..'', repo @ ''-worktrees'']
      in \<lparr>fullBranchName = handle @ ''/'' @ ticket @ ''/'' @ normalizedBranchName,
          plannedPath = join [worktreesDir, handle, ticket, normalizedBranchName]\<rparr>)"

text \<open>The result of the create operation; \<open>resolvedUsername\<close> is its field \<open>username\<close>,
  \<open>installedWith\<close> its field \<open>packageManager\<close>.\<close>

record CreateWorktreeResult =
  worktreePath :: string
  branchFullName :: string
  resolvedUsername :: string
  usernameSource :: source
  repoName :: string
  dependenciesInstalled :: bool
  installedWith :: "string option"
  envFilesCopied :: nat

definition createWorktreeTool ::
  "git \<Rightarrow> host \<Rightarrow> string \<Rightarrow> string \<Rightarrow> string option \<Rightarrow> string option
   \<Rightarrow> CreateWorktreeResult action" where
  "createWorktreeTool g h ticket branchName cwd openIde =
     (if ticket = [] \<or> trim ticket = [] then throw TicketRequired
      else if branchName = [] \<or> trim branchName = [] then throw BranchNameRequired
      else
        andThen (query (getMainRepoRoot g cwd))
          (\<lambda>mainRepoRoot.
        andThen (query (detectUsername g h (Some (join [mainRepoRoot, ''.worktree-config'']))))
          (\<lambda>usernameResult.
        (let repo = getRepoName g mainRepoRoot;
             plan = planWorktree mainRepoRoot (username usernameResult) repo ticket branchName
         in
        andThen (createWorktree g mainRepoRoot (plannedPath plan) (fullBranchName plan)
                   (Some ''origin/master''))
          (\<lambda>_.
        andThen (tryCatch (installDependencies h (plannedPath plan))
                   (\<lambda>_. ret \<lparr>success = False, packageManager = None\<rparr>))
          (\<lambda>installed.
        andThen (tryCatch (copyEnvFiles h mainRepoRoot (plannedPath plan)) (\<lambda>_. ret 0))
          (\<lambda>copied.
        ret \<lparr>worktreePath = plannedPath plan,
             branchFullName = fullBranchName plan,
             resolvedUsername = username usernameResult,
             usernameSource = source usernameResult,
             repoName = repo,
             dependenciesInstalled = success installed,
             installedWith = packageManager installed,
             envFilesCopied = copied\<rparr>)))))))"

section \<open>The cleanup operation (cleanupWorktreeTool)\<close>

lemma dirname_shorter: "3 \<le> length p \<Longrightarrow> length (dirname p) < length p"
proof -
  assume len: "3 \<le> length p"
  define u where
    "u = dropWhile (\<lambda>c. c \<noteq> CHR ''/'') (dropWhile (\<lambda>c. c = CHR ''/'') (rev (tl p)))"
  have "length u \<le> length (dropWhile (\<lambda>c. c = CHR ''/'') (rev (tl p)))"
    unfolding u_def by (rule length_dropWhile_le)
  also have "\<dots> \<le> length (rev (tl p))"
    by (rule length_dropWhile_le)
  finally have u: "length u < length p"
    using len by simp
  from len have ne: "p \<noteq> []" by auto
  have d: "dirname p = (if u = [] then (if hd p = CHR ''/'' then ''/'' else ''.'')
                        else if hd p = CHR ''/'' \<and> length u = 1 then ''//''
                        else take (length u) p)"
    unfolding dirname_def Let_def u_def [symmetric] using ne by (simp only: if_False)
  consider "u = []" | "u \<noteq> []" "hd p = CHR ''/'' \<and> length u = 1"
    | "u \<noteq> []" "\<not> (hd p = CHR ''/'' \<and> length u = 1)"
    by blast
  then show ?thesis
  proof cases
    case 1
    then have "length (dirname p) = 1" by (simp add: d)
    with len show ?thesis by simp
  next
    case 2
    then have "length (dirname p) = 2" by (simp add: d)
    with len show ?thesis by simp
  next
    case 3
    then have "dirname p = take (length u) p" by (simp only: d if_False)
    with u show ?thesis by simp
  qed
qed

lemma includesStr_length: "includesStr s p \<Longrightarrow> length p \<le> length s"
proof (induction s)
  case Nil
  then show ?case by simp
next
  case (Cons c cs)
  show ?case
  proof (cases "startsWith (c # cs) p")
    case True
    then have "length (take (length p) (c # cs)) = length p"
      by (simp only: startsWith_def)
    then show ?thesis by simp
  next
    case False
    with Cons show ?thesis by simp
  qed
qed

text \<open>
  The loop that removes empty parent directories, on \<open>currentDir\<close> and \<open>directoriesRemoved\<close>.
  An exception of \<open>readdir\<close> or \<open>rmdir\<close> ends the loop.
\<close>

function pruneLoop :: "host \<Rightarrow> string \<Rightarrow> string list \<Rightarrow> string list action" where
  "pruneLoop h currentDir removedSoFar =
     (if currentDir \<noteq> ''/'' \<and> Some currentDir \<noteq> env_HOME h
         \<and> includesStr currentDir ''-worktrees''
      then
        (case readdir h currentDir of
           Inl _ \<Rightarrow> ret removedSoFar
         | Inr entries \<Rightarrow>
             if length entries = 0 then
               (case rmdir h currentDir of
                  Inl _ \<Rightarrow> ([FsRmdir currentDir], Inr removedSoFar)
                | Inr _ \<Rightarrow>
                    (let rest = pruneLoop h (dirname currentDir) (removedSoFar @ [currentDir])
                     in (FsRmdir currentDir # fst rest, snd rest)))
             else ret removedSoFar)
      else ret removedSoFar)"
  by pat_completeness auto
termination
proof (relation "measure (\<lambda>(h, currentDir, removedSoFar). length currentDir)")
  show "wf (measure (\<lambda>(h, currentDir, removedSoFar). length currentDir))"
    by simp
next
  fix h :: host and currentDir' :: string and removedSoFar :: "string list"
  assume "currentDir' \<noteq> ''/'' \<and> Some currentDir' \<noteq> env_HOME h
            \<and> includesStr currentDir' ''-worktrees''"
  then have "3 \<le> length currentDir'"
    using includesStr_length [of currentDir' "''-worktrees''"] by simp
  then show "((h, dirname currentDir', removedSoFar @ [currentDir']), (h, currentDir', removedSoFar))
               \<in> measure (\<lambda>(h, currentDir, removedSoFar). length currentDir)"
    by (simp add: dirname_shorter)
qed

declare pruneLoop.simps [simp del]

record CleanupWorktreeResult =
  removed :: bool
  removedWorktreePath :: string
  branchName :: "string option"
  branchDeleted :: bool
  directoriesRemoved :: "string list"


section \<open>src/utils/github.ts and the createPR operation\<close>

record PullRequestResult =
  url :: string
  number :: int
  title :: string

text \<open>The hosted provider: \<open>octokit.pulls.create\<close> for a client made with the given token.\<close>

type_synonym hub = "string \<Rightarrow> PullRequest \<Rightarrow> error + PullRequestResult"

text \<open>\<open>url.match(/github\.com[:/]([^/]+)\/([^/.]+)(\.git)?$/)\<close>: the two capture groups of
  the leftmost match.\<close>

fun matchGitHubUrl :: "string \<Rightarrow> (string \<times> string) option" where
  "matchGitHubUrl [] = None"
| "matchGitHubUrl (c # cs) =
     (let s = c # cs;
          after = substring s 11;
          owner = takeWhile (\<lambda>x. x \<noteq> CHR ''/'') after;
          rest = substring after (length owner + 1);
          name = takeWhile (\<lambda>x. x \<noteq> CHR ''/'' \<and> x \<noteq> CHR ''.'') rest;
          tail = substring rest (length name)
      in if startsWith s ''github.com'' \<and> length s > 10
            \<and> (s ! 10 = CHR '':'' \<or> s ! 10 = CHR ''/'')
            \<and> owner \<noteq> [] \<and> length owner < length after
            \<and> name \<noteq> [] \<and> (tail = [] \<or> tail = ''.git'')
         then Some (owner, name)
         else matchGitHubUrl cs)"

text \<open>\<open>v || d\<close> for an optional string \<open>v\<close>.\<close>

definition orElse :: "string option \<Rightarrow> string \<Rightarrow> string" where
  "orElse v d = (case v of None \<Rightarrow> d | Some s \<Rightarrow> if s \<noteq> [] then s else d)"

definition getGitHubRepoInfo :: "git \<Rightarrow> string \<Rightarrow> error + (string \<times> string)" where
  "getGitHubRepoInfo g repoPath =
     (case getRemotes g (Some repoPath) of
        Inl e \<Rightarrow> Inl e
      | Inr remotes \<Rightarrow>
          (case find (\<lambda>r. remote_name r = ''origin'') remotes of
             None \<Rightarrow> Inl NoOriginRemote
           | Some origin \<Rightarrow>
               if refs_fetch origin = [] then Inl NoOriginRemote
               else (case matchGitHubUrl (refs_fetch origin) of
                       None \<Rightarrow> Inl NotGitHubRemote
                     | Some m \<Rightarrow> Inr m)))"

definition getGitHubToken :: "host \<Rightarrow> error + string" where
  "getGitHubToken h =
     (let fromCli =
            (case execAsync h ''gh auth token'' None of
               Inl _ \<Rightarrow> Inl AuthenticationRequired
             | Inr out \<Rightarrow>
                 if trim out \<noteq> [] then Inr (trim out) else Inl AuthenticationRequired)
      in case env_GITHUB_TOKEN h of
           None \<Rightarrow> fromCli
         | Some t \<Rightarrow> if t \<noteq> [] then Inr t else fromCli)"

definition createPullRequest ::
  "git \<Rightarrow> host \<Rightarrow> hub \<Rightarrow> string \<Rightarrow> string \<Rightarrow> string option \<Rightarrow> bool
   \<Rightarrow> PullRequestResult action" where
  "createPullRequest g h octokit repoPath prTitle prBody draft =
     andThen (query (revparse g (Some repoPath) [''--abbrev-ref'', ''HEAD'']))
       (\<lambda>current.
     if current = ''master'' \<or> current = ''main'' then throw CannotCreateFromTrunk
     else
     andThen (query (branch_all g (Some repoPath)))
       (\<lambda>branches.
     (let baseBranch = (if ''master'' \<in> set branches then ''master'' else ''main'')
      in
     andThen (query (getGitHubToken h))
       (\<lambda>token.
     andThen (query (getGitHubRepoInfo g repoPath))
       (\<lambda>(owner, repo).
     (let request = \<lparr>pr_owner = owner, pr_repo = repo, pr_title = prTitle,
                     pr_body = orElse prBody [],
                     pr_head = current, pr_base = baseBranch, pr_draft = draft\<rparr>
      in andThen (perform (PullsCreate request) (octokit token request))
           (\<lambda>response. ret response)))))))"

definition getCommitsSinceBase :: "git \<Rightarrow> string \<Rightarrow> string \<Rightarrow> error + string list" where
  "getCommitsSinceBase g repoPath baseBranch =
     (case revparse g (Some repoPath) [''--abbrev-ref'', ''HEAD''] of
        Inl e \<Rightarrow> Inl e
      | Inr currentBranch \<Rightarrow>
          log_messages g (Some repoPath) (''origin/'' @ baseBranch) currentBranch)"

text \<open>\<open>msg.split('\n')[0]\<close>.\<close>

definition firstLine :: "string \<Rightarrow> string" where
  "firstLine msg = (case split CHR 0x0A msg of [] \<Rightarrow> [] | l # _ \<Rightarrow> l)"

record PullRequestDraft =
  draft_title :: string
  draft_body :: string

definition generatePRContent :: "git \<Rightarrow> string \<Rightarrow> error + PullRequestDraft" where
  "generatePRContent g repoPath =
     (case getCommitsSinceBase g repoPath ''master'' of
        Inl e \<Rightarrow> Inl e
      | Inr commits \<Rightarrow>
          (case commits of
             [] \<Rightarrow> Inl NoCommits
           | first # _ \<Rightarrow>
               Inr \<lparr>draft_title = firstLine first,
                    draft_body =
                      (if length commits > 1
                       then ''## Commits'' @ [CHR 0x0A, CHR 0x0A]
                            @ joinWith [CHR 0x0A] (map (\<lambda>msg. ''- '' @ firstLine msg) commits)
                       else [])\<rparr>))"

text \<open>The result of the createPR operation: the fields of \<open>PullRequestResult\<close> and
  \<open>worktreePath\<close> (here \<open>prWorktreePath\<close>).\<close>

record CreatePRResult = PullRequestResult +
  prWorktreePath :: string

definition createPRTool ::
  "git \<Rightarrow> host \<Rightarrow> hub \<Rightarrow> string \<Rightarrow> string option \<Rightarrow> string option \<Rightarrow> bool
   \<Rightarrow> CreatePRResult action" where
  "createPRTool g h octokit target givenTitle givenBody draft =
     andThen
       (if \<not> truthy givenTitle \<or> \<not> truthy givenBody then
          andThen (query (generatePRContent g target))
            (\<lambda>generated. ret (orElse givenTitle (draft_title generated),
                               orElse givenBody (draft_body generated)))
        else ret (orElse givenTitle [], orElse givenBody []))
       (\<lambda>(prTitle, prBody).
     andThen (createPullRequest g h octokit target prTitle (Some prBody) draft)
       (\<lambda>result. ret (PullRequestResult.extend result \<lparr>prWorktreePath = target\<rparr>)))"

section \<open>Notions used in the statements\<close>

text \<open>The invariant of the loop of \<open>listWorktrees\<close>: no collected record is flagged, and the
  record under construction is not flagged once it has a path.\<close>

definition mainInv :: "WorktreeInfo list \<times> WorktreeInfo \<Rightarrow> bool" where
  "mainInv st = ((\<forall>w \<in> set (fst st). isMain w = Some False)
                 \<and> (truthy (path (snd st)) \<longrightarrow> isMain (snd st) = Some False))"

text \<open>The directories on which a list of changes calls \<open>rmdir\<close>, in order.\<close>

fun rmdirsOf :: "effect list \<Rightarrow> string list" where
  "rmdirsOf [] = []"
| "rmdirsOf (FsRmdir p # rest) = p # rmdirsOf rest"
| "rmdirsOf (_ # rest) = rmdirsOf rest"

text \<open>The first \<open>n\<close> directories of the walk upward from \<open>p\<close>: \<open>p\<close>, its parent, and so on.\<close>

fun ancestors :: "nat \<Rightarrow> string \<Rightarrow> string list" where
  "ancestors 0 p = []"
| "ancestors (Suc n) p = p # ancestors n (dirname p)"

text \<open>The condition of the loop of the cleanup operation.\<close>

definition mayPrune :: "host \<Rightarrow> string \<Rightarrow> bool" where
  "mayPrune h p = (p \<noteq> ''/'' \<and> Some p \<noteq> env_HOME h \<and> includesStr p ''-worktrees'')"







text \<open>The base of a \<open>git worktree add <path> -b <branch> <base>\<close> command.\<close>

fun baseOfAdd :: "effect \<Rightarrow> string option" where
  "baseOfAdd (GitRaw dir [w, a, p, b, n, base]) =
     (if w = ''worktree'' \<and> a = ''add'' \<and> b = ''-b'' then Some base else None)"
| "baseOfAdd _ = None"

text \<open>What the create operation can do to the base of a new branch: a change is either not
  a \<open>worktree add\<close>, or one from \<open>origin/master\<close>.\<close>

definition masterOrNone :: "effect \<Rightarrow> bool" where
  "masterOrNone ef = (baseOfAdd ef = None \<or> baseOfAdd ef = Some ''origin/master'')"

definition allMasterOrNone :: "'a action \<Rightarrow> bool" where
  "allMasterOrNone m = list_all masterOrNone (fst m)"

section \<open>Example worlds\<close>

text \<open>A host with an override file \<open>/home/u/acme/.worktree-config\<close> and a hosted login that answers.\<close>

definition overrideHost :: "string \<Rightarrow> host" where
  "overrideHost config =
     noHost\<lparr>readFile := (\<lambda>p. if p = ''/home/u/acme/.worktree-config'' then Inr config
                              else Inl (Collaborator ''ENOENT'')),
            execAsync := (\<lambda>c d. if c = ''gh api user --jq .login'' then Inr ''octocat\<newline>''
                                 else Inl (Collaborator ''command not found''))\<rparr>"

text \<open>A repository on branch \<open>alice/CO-1/x\<close>, tracking \<open>origin/alice/CO-1/x\<close>, three commits
  ahead and one behind, with one modified file; and the same without an upstream.\<close>

definition exampleRepo :: repo where
  "exampleRepo =
     \<lparr>modified = [''README.md''],
      checkedOut = ''alice/CO-1/x'',
      upstreamOf = (\<lambda>b. if b = ''alice/CO-1/x'' then Some ''origin/alice/CO-1/x'' else None),
      reachable = (\<lambda>ref. if ref = ''alice/CO-1/x'' then [1, 2, 3, 4, 5]
                           else if ref = ''origin/alice/CO-1/x'' then [1, 2, 9] else [])\<rparr>"

text \<open>The output of \<open>git worktree list --porcelain\<close> for a main checkout and one worktree.\<close>

definition examplePorcelain :: string where
  "examplePorcelain =
     ''worktree /home/u/acme\<newline>HEAD abc123\<newline>branch refs/heads/master\<newline>\<newline>''
     @ ''worktree /home/u/acme-worktrees/alice/CO-1/x\<newline>HEAD def456\<newline>''
     @ ''branch refs/heads/alice/CO-1/x\<newline>\<newline>''"

text \<open>A git client that answers every \<open>raw\<close> call with the given output.\<close>

definition rawGit :: "string \<Rightarrow> git" where
  "rawGit output = noGit\<lparr>raw := (\<lambda>_ _. Inr output)\<rparr>"



text \<open>
  A repository \<open>acme\<close> checked out at \<open>/home/u/acme\<close>, whose remote has both \<open>origin/main\<close>
  and \<open>origin/master\<close>, where fetching and adding a worktree succeed; and a host with the
  override file \<open>USERNAME=alice\<close>, no lock file and one environment file.
\<close>

definition acmeGit :: git where
  "acmeGit =
     noGit\<lparr>raw := (\<lambda>dir args. if args = worktreeListArgs then Inr examplePorcelain else Inr []),
           fetch := (\<lambda>dir remote. Inr ()),
           getRemotes := (\<lambda>dir. Inr [\<lparr>remote_name = ''origin'',
                                       refs_fetch = ''git@github.com:acme-corp/Acme.git''\<rparr>])\<rparr>"

definition acmeHost :: host where
  "acmeHost =
     (overrideHost ''USERNAME=alice'')
       \<lparr>glob := (\<lambda>pattern dir. Inr [''.env'']),
        mkdir := (\<lambda>dir. Inr ()),
        copyFile := (\<lambda>src dst. Inr ())\<rparr>"

text \<open>A worktree whose HEAD is \<open>master\<close>, level with \<open>origin/master\<close>; and a provider that
  accepts every request.\<close>

definition trunkGit :: git where
  "trunkGit =
     noGit\<lparr>revparse := (\<lambda>dir args. Inr ''master''),
           log_messages := (\<lambda>dir from to. Inr []),
           branch_all := (\<lambda>dir. Inr [''master''])\<rparr>"

definition acceptingHub :: hub where
  "acceptingHub token request =
     Inr \<lparr>url = ''https://github.com/acme-corp/acme/pull/1'', number = 1,
          title = pr_title request\<rparr>"

section \<open>Properties: the library functions on examples\<close>

text \<open>The examples of the Node.js documentation for the path module, and the regular
  expressions of the sources on typical inputs.\<close>

lemma path_examples:
  "join [''/foo'', ''bar'', ''baz/asdf'', ''quux'', ''..''] = ''/foo/bar/baz/asdf''"
  "normalize ''/foo/bar//baz/asdf/quux/..'' = ''/foo/bar/baz/asdf''"
  "normalize ''../a/./b/../'' = ''../a/''"
  "join ['''', ''''] = ''.''"
  "dirname ''/foo/bar/baz/asdf/quux'' = ''/foo/bar/baz/asdf''"
  "dirname ''/foo/bar/'' = ''/foo''"
  "dirname ''/foo//bar'' = ''/foo/''"
  "dirname ''/foo'' = ''/''"
  "dirname ''foo'' = ''.''"
  "basename ''/foo/bar/baz/asdf/quux.html'' = ''quux.html''"
  "basename ''/foo/bar/'' = ''bar''"
  by code_simp+

lemma regexp_examples:
  "matchRepoName ''git@github.com:acme-corp/Acme.git'' = Some ''Acme''"
  "matchRepoName ''https://github.com/acme-corp/acme'' = Some ''acme''"
  "matchRepoName ''https://github.com/acme-corp/acme/'' = None"
  "matchGitHubUrl ''git@github.com:acme-corp/Acme.git'' = Some (''acme-corp'', ''Acme'')"
  "matchGitHubUrl ''https://github.com/acme-corp/acme'' = Some (''acme-corp'', ''acme'')"
  "matchGitHubUrl ''https://gitlab.com/acme-corp/acme'' = None"
  "matchUsername ''# handle\<newline>USERNAME=alice\<newline>'' = Some ''alice''"
  "matchUsername ''USERNAME=\<newline>'' = None"
  by code_simp+

section \<open>Properties: description normalization\<close>

lemma slug_not_space: "isSlugChar c \<Longrightarrow> \<not> isSpace c"
  by (auto simp: isSlugChar_def isSpace_def Let_def)

lemma slug_lower: "isSlugChar c \<Longrightarrow> lowerChar c = c"
  by (auto simp: isSlugChar_def lowerChar_def Let_def)

lemma replaceSpaceRuns_no_space:
  "\<forall>c \<in> set s. \<not> isSpace c \<Longrightarrow> replaceSpaceRuns s = s"
  by (induction s) auto

lemma normalizeUsername_slug: "\<forall>c \<in> set (normalizeUsername s). isSlugChar c"
  by (simp add: normalizeUsername_def stripNonSlug_def)

lemma normalizeUsername_fixes_slug:
  assumes "\<forall>c \<in> set s. isSlugChar c"
  shows "normalizeUsername s = s"
proof -
  have "toLowerCase s = s"
    using assms by (simp add: toLowerCase_def slug_lower map_idI)
  moreover have "replaceSpaceRuns s = s"
    using assms by (simp add: replaceSpaceRuns_no_space slug_not_space)
  moreover have "stripNonSlug s = s"
    using assms by (simp add: stripNonSlug_def)
  ultimately show ?thesis
    by (simp add: normalizeUsername_def)
qed

text \<open>
  C8. The normalization of a display name or of a branch description (lower case, every run
  of white space replaced by one hyphen, every character outside \<open>[a-z0-9-]\<close> removed) is
  idempotent, and it sends \<open>Billing Feature!\<close> to \<open>billing-feature\<close>.
\<close>

theorem C8_normalize_idempotent:
  "normalizeUsername (normalizeUsername s) = normalizeUsername s
   \<and> normalizeUsername ''Billing Feature!'' = ''billing-feature''"
proof
  show "normalizeUsername (normalizeUsername s) = normalizeUsername s"
    by (rule normalizeUsername_fixes_slug) (rule normalizeUsername_slug)
  show "normalizeUsername ''Billing Feature!'' = ''billing-feature''"
    by code_simp
qed

section \<open>Properties: identity resolution\<close>

lemma matchUsername_nonempty: "matchUsername s = Some v \<Longrightarrow> v \<noteq> []"
  by (induction s) (auto split: if_splits)

lemma detectUsername_chain:
  "detectUsername g h cp
     = firstSuccess [overrideSource h cp, hostedLoginSource h, localConfigSource g]"
  by (auto simp: detectUsername_def overrideSource_def hostedLoginSource_def localConfigSource_def
        normalizeUsername_def toLowerCase_def stripNonSlug_def Let_def
        split: option.splits sum.splits dest: matchUsername_nonempty)

lemma overrideHost_readFile:
  "readFile (overrideHost config) ''/home/u/acme/.worktree-config'' = Inr config"
  by (simp add: overrideHost_def noHost_def)

lemma overrideHost_gh:
  "execAsync (overrideHost config) ''gh api user --jq .login'' None = Inr ''octocat\<newline>''"
  by (simp add: overrideHost_def noHost_def)

text \<open>
  C7. \<open>detectUsername\<close> evaluates the override file, the hosted login and the normalized
  local configuration name in that order, and the first that produces a handle wins. With an
  override file that holds a \<open>USERNAME=value\<close> assignment and a hosted login that answers, the
  result is the value of the file, trimmed, tagged \<open>manual_config\<close>. The call fails exactly
  when the three sources produce nothing, and then with \<open>IdentityUnresolved\<close>.
\<close>

theorem C7_resolveIdentity_order:
  "detectUsername g h cp
     = firstSuccess [overrideSource h cp, hostedLoginSource h, localConfigSource g]
   \<and> (\<forall>p config v out.
         p \<noteq> [] \<and> readFile h p = Inr config \<and> matchUsername config = Some v
         \<and> execAsync h ''gh api user --jq .login'' None = Inr out \<and> trim out \<noteq> []
         \<longrightarrow> detectUsername g h (Some p) = Inr \<lparr>username = trim v, source = manual_config\<rparr>)
   \<and> (detectUsername g h cp = Inl IdentityUnresolved
        \<longleftrightarrow> overrideSource h cp = None \<and> hostedLoginSource h = None
            \<and> localConfigSource g = None)
   \<and> (\<forall>e. detectUsername g h cp = Inl e \<longrightarrow> e = IdentityUnresolved)"
proof -
  note chain = detectUsername_chain
  have a: "\<forall>p config v out.
         p \<noteq> [] \<and> readFile h p = Inr config \<and> matchUsername config = Some v
         \<and> execAsync h ''gh api user --jq .login'' None = Inr out \<and> trim out \<noteq> []
         \<longrightarrow> detectUsername g h (Some p) = Inr \<lparr>username = trim v, source = manual_config\<rparr>"
    by (simp add: chain overrideSource_def)
  have b: "detectUsername g h cp = Inl IdentityUnresolved
        \<longleftrightarrow> overrideSource h cp = None \<and> hostedLoginSource h = None
            \<and> localConfigSource g = None"
    by (cases "overrideSource h cp"; cases "hostedLoginSource h"; cases "localConfigSource g")
       (simp_all add: chain)
  have c: "\<forall>e. detectUsername g h cp = Inl e \<longrightarrow> e = IdentityUnresolved"
    by (cases "overrideSource h cp"; cases "hostedLoginSource h"; cases "localConfigSource g")
       (simp_all add: chain)
  from chain a b c show ?thesis by blast
qed

theorem C7_resolveIdentity_order_witness:
  "detectUsername noGit (overrideHost ''USERNAME= Alice Smith '') (Some ''/home/u/acme/.worktree-config'')
     = Inr \<lparr>username = ''Alice Smith'', source = manual_config\<rparr>
   \<and> hostedLoginSource (overrideHost ''USERNAME= Alice Smith '')
       = Some \<lparr>username = ''octocat'', source = github_cli\<rparr>
   \<and> detectUsername noGit noHost (Some ''/home/u/acme/.worktree-config'') = Inl IdentityUnresolved"
proof -
  let ?h = "overrideHost ''USERNAME= Alice Smith ''"
  have m: "matchUsername ''USERNAME= Alice Smith '' = Some '' Alice Smith ''"
    by code_simp
  have t: "trim ''octocat\<newline>'' = ''octocat''" by code_simp
  have t2: "trim '' Alice Smith '' = ''Alice Smith''" by code_simp
  have o: "overrideSource noHost (Some ''/home/u/acme/.worktree-config'') = None"
    by (simp add: overrideSource_def noHost_def)
  have o2: "hostedLoginSource noHost = None"
    by (simp add: hostedLoginSource_def noHost_def)
  have o3: "localConfigSource noGit = None"
    by (simp add: localConfigSource_def noGit_def)
  have "detectUsername noGit ?h (Some ''/home/u/acme/.worktree-config'')
     = Inr \<lparr>username = trim '' Alice Smith '', source = manual_config\<rparr>"
    using C7_resolveIdentity_order [of noGit ?h "Some ''/home/u/acme/.worktree-config''",
        THEN conjunct2, THEN conjunct1, rule_format,
        of "''/home/u/acme/.worktree-config''" "''USERNAME= Alice Smith ''" "'' Alice Smith ''"
           "''octocat\<newline>''"]
      overrideHost_readFile m overrideHost_gh t by simp
  then have 1: "detectUsername noGit ?h (Some ''/home/u/acme/.worktree-config'')
     = Inr \<lparr>username = ''Alice Smith'', source = manual_config\<rparr>"
    by (simp only: t2)
  from C7_resolveIdentity_order [of noGit noHost "Some ''/home/u/acme/.worktree-config''"] o o2 o3
  have 2: "detectUsername noGit noHost (Some ''/home/u/acme/.worktree-config'') = Inl IdentityUnresolved"
    by blast
  have 3: "hostedLoginSource ?h = Some \<lparr>username = ''octocat'', source = github_cli\<rparr>"
    by (simp add: hostedLoginSource_def overrideHost_gh t)
  from 1 2 3 show ?thesis by blast
qed

lemma matchUsername_assignment:
  assumes "w \<noteq> []" and "\<forall>c \<in> set w. \<not> isLineTerminator c"
  shows "matchUsername (''USERNAME='' @ w) = Some w"
proof -
  have "takeWhile (\<lambda>x. \<not> isLineTerminator x) w = w"
    using assms(2) by (simp add: takeWhile_eq_all_conv)
  with assms(1) show ?thesis
    by (simp add: startsWith_def substring_def del: takeWhile_eq_all_conv)
qed

lemma trim_blank:
  assumes "\<forall>c \<in> set w. isSpace c"
  shows "trim w = []"
  using assms by (auto simp: trim_def dest: set_dropWhileD)

text \<open>
  C10. An override file whose content is \<open>USERNAME=\<close> followed by a value of white space only
  (on one line) makes \<open>detectUsername\<close> return the empty handle tagged \<open>manual_config\<close>,
  whatever the other sources would give: the override branch does not test the trimmed
  value. The local configuration branch does test its result: a configured name whose
  normalization is empty is passed over, and the call fails when nothing else is left.
\<close>

theorem C10_blank_override:
  "(p \<noteq> [] \<and> w \<noteq> [] \<and> (\<forall>c \<in> set w. isSpace c \<and> \<not> isLineTerminator c)
      \<and> readFile h p = Inr (''USERNAME='' @ w)
    \<longrightarrow> detectUsername g h (Some p) = Inr \<lparr>username = [], source = manual_config\<rparr>)
   \<and> (execAsync h ''gh api user --jq .login'' None = Inl e
      \<and> getConfig g None ''user.name'' = Inr (Some v) \<and> normalizeUsername v = []
    \<longrightarrow> detectUsername g h None = Inl IdentityUnresolved)"
proof (intro conjI impI)
  assume a: "p \<noteq> [] \<and> w \<noteq> [] \<and> (\<forall>c \<in> set w. isSpace c \<and> \<not> isLineTerminator c)
      \<and> readFile h p = Inr (''USERNAME='' @ w)"
  then have "matchUsername (''USERNAME='' @ w) = Some w"
    by (intro matchUsername_assignment) auto
  moreover have "trim w = []"
    using a by (intro trim_blank) auto
  ultimately have "overrideSource h (Some p) = Some \<lparr>username = [], source = manual_config\<rparr>"
    using a by (simp add: overrideSource_def)
  then show "detectUsername g h (Some p) = Inr \<lparr>username = [], source = manual_config\<rparr>"
    by (simp add: detectUsername_chain)
next
  assume b: "execAsync h ''gh api user --jq .login'' None = Inl e
      \<and> getConfig g None ''user.name'' = Inr (Some v) \<and> normalizeUsername v = []"
  then have "overrideSource h None = None" "hostedLoginSource h = None"
    "localConfigSource g = None"
    by (simp_all add: overrideSource_def hostedLoginSource_def localConfigSource_def)
  then show "detectUsername g h None = Inl IdentityUnresolved"
    by (simp add: detectUsername_chain)
qed

theorem C10_blank_override_witness:
  "detectUsername noGit (overrideHost ''USERNAME=   '') (Some ''/home/u/acme/.worktree-config'')
     = Inr \<lparr>username = [], source = manual_config\<rparr>
   \<and> detectUsername (noGit\<lparr>getConfig := (\<lambda>_ _. Inr (Some ''!!!''))\<rparr>) noHost None
     = Inl IdentityUnresolved"
proof -
  let ?g = "noGit\<lparr>getConfig := (\<lambda>_ _. Inr (Some ''!!!''))\<rparr>"
  have s: "\<forall>c \<in> set ''   ''. isSpace c \<and> \<not> isLineTerminator c"
    by (simp add: isSpace_def isLineTerminator_def code_def)
  have r: "readFile (overrideHost (''USERNAME='' @ ''   '')) ''/home/u/acme/.worktree-config''
             = Inr (''USERNAME='' @ ''   '')"
    by (rule overrideHost_readFile)
  have 1: "detectUsername noGit (overrideHost (''USERNAME='' @ ''   ''))
             (Some ''/home/u/acme/.worktree-config'') = Inr \<lparr>username = [], source = manual_config\<rparr>"
    using C10_blank_override [where p = "''/home/u/acme/.worktree-config''" and w = "''   ''"
        and h = "overrideHost (''USERNAME='' @ ''   '')" and g = noGit, THEN conjunct1] s r
    by simp
  have e: "execAsync noHost ''gh api user --jq .login'' None = Inl (Collaborator ''command not found'')"
    by (simp add: noHost_def)
  have c: "getConfig ?g None ''user.name'' = Inr (Some ''!!!'')"
    by simp
  have n: "normalizeUsername ''!!!'' = []"
    by code_simp
  have 2: "detectUsername ?g noHost None = Inl IdentityUnresolved"
    using C10_blank_override [where h = noHost and e = "Collaborator ''command not found''"
        and g = ?g and v = "''!!!''", THEN conjunct2] e c n
    by blast
  from 1 2 show ?thesis by simp
qed

section \<open>Properties: enumeration of worktrees\<close>

lemma parseLine_mainInv: "mainInv st \<Longrightarrow> mainInv (parseLine st line)"
  by (cases st) (auto simp: mainInv_def truthy_def emptyObject_def)

lemma foldl_parseLine_mainInv: "mainInv st \<Longrightarrow> mainInv (foldl parseLine st lines)"
  by (induction lines arbitrary: st) (auto simp: parseLine_mainInv)

lemma parsed_not_main:
  "\<forall>w \<in> set (fst (foldl parseLine ([], emptyObject) lines)). isMain w = Some False"
proof -
  have "mainInv ([], emptyObject)"
    by (simp add: mainInv_def truthy_def emptyObject_def)
  then have "mainInv (foldl parseLine ([], emptyObject) lines)"
    by (rule foldl_parseLine_mainInv)
  then show ?thesis
    by (simp add: mainInv_def)
qed

lemma markMain_Cons: "markMain (r # rs) = r\<lparr>isMain := Some True\<rparr> # rs"
  by (simp add: markMain_def)

lemma listWorktrees_shape:
  assumes "listWorktrees g repoPath = Inr ws"
  shows "ws = [] \<or> (\<exists>r rs. ws = r\<lparr>isMain := Some True\<rparr> # rs
                         \<and> (\<forall>w \<in> set rs. isMain w = Some False))"
proof -
  from assms obtain out where
    ws: "ws = markMain (fst (foldl parseLine ([], emptyObject) (split CHR 0x0A out)))"
    by (auto simp: listWorktrees_def split: sum.splits)
  let ?rs = "fst (foldl parseLine ([], emptyObject) (split CHR 0x0A out))"
  have nm: "\<forall>w \<in> set ?rs. isMain w = Some False"
    by (rule parsed_not_main)
  show ?thesis
  proof (cases ?rs)
    case Nil
    then show ?thesis by (simp add: ws markMain_def)
  next
    case (Cons r rs)
    with nm have "\<forall>w \<in> set rs. isMain w = Some False" by simp
    with Cons show ?thesis by (auto simp: ws markMain_Cons)
  qed
qed

lemma listWorktrees_example:
  "listWorktrees (rawGit examplePorcelain) ''/home/u/acme''
     = Inr [\<lparr>path = Some ''/home/u/acme'', branch = Some ''master'', head = Some ''abc123'',
             isMain = Some True\<rparr>,
            \<lparr>path = Some ''/home/u/acme-worktrees/alice/CO-1/x'',
             branch = Some ''alice/CO-1/x'', head = Some ''def456'', isMain = Some False\<rparr>]"
  by code_simp



section \<open>Properties: the list operation\<close>

lemma withStatus_fields:
  "isMain (withStatus g w) = isMain w" "path (withStatus g w) = path w"
  by (auto simp: withStatus_def WorktreeInfo.defs split: sum.splits)

lemma withStatus_status:
  "isMain w \<noteq> Some True \<Longrightarrow>
   status (withStatus g w) = (case getWorktreeStatus g (path w) of Inl _ \<Rightarrow> None | Inr s \<Rightarrow> Some s)"
  by (auto simp: withStatus_def WorktreeInfo.defs split: sum.splits)

lemma getMainRepoRoot_example:
  "getMainRepoRoot (rawGit examplePorcelain) None = Inr ''/home/u/acme''"
  by code_simp

text \<open>
  C9. When the enumeration succeeds, the list operation succeeds: it returns the path of the
  main checkout in \<open>mainRepoPath\<close> and, in \<open>worktrees\<close>, the enumerated records without the
  first one (the main checkout), so that every returned record has \<open>isMain = false\<close>. A
  returned record carries the status of its worktree when \<open>getWorktreeStatus\<close> succeeds on
  it and no status field when that fails; such a failure does not fail the call.
\<close>

theorem C9_list_tool:
  assumes "getMainRepoRoot g cwd = Inr root" and "listWorktrees g root = Inr listed"
  shows "\<exists>res. listWorktreesTool g cwd = Inr res
           \<and> mainRepoPath res = root
           \<and> worktrees res = map (withStatus g) (tl listed)
           \<and> (\<forall>w \<in> set (worktrees res).
                 isMain w = Some False
                 \<and> status w = (case getWorktreeStatus g (path w) of
                                 Inl _ \<Rightarrow> None | Inr s \<Rightarrow> Some s))"
proof -
  from listWorktrees_shape [OF assms(2)] consider
    "listed = []" |
    r rs where "listed = r\<lparr>isMain := Some True\<rparr> # rs" "\<forall>w \<in> set rs. isMain w = Some False"
    by blast
  then show ?thesis
  proof cases
    case 1
    with assms show ?thesis by (simp add: listWorktreesTool_def)
  next
    case 2
    have keep: "filter (\<lambda>w. isMain w \<noteq> Some True) (map (withStatus g) rs) = map (withStatus g) rs"
      using 2(2) by (induction rs) (auto simp: withStatus_fields)
    have res: "listWorktreesTool g cwd
                 = Inr \<lparr>worktrees = map (withStatus g) rs, mainRepoPath = root\<rparr>"
      using assms 2(1) keep by (simp add: listWorktreesTool_def withStatus_fields)
    have "\<forall>w \<in> set (map (withStatus g) rs).
                 isMain w = Some False
                 \<and> status w = (case getWorktreeStatus g (path w) of
                                 Inl _ \<Rightarrow> None | Inr s \<Rightarrow> Some s)"
      using 2(2) by (auto simp: withStatus_fields withStatus_status)
    with res 2(1) show ?thesis by simp
  qed
qed

theorem C9_list_tool_witness:
  "listWorktreesTool (rawGit examplePorcelain) None
     = Inr \<lparr>worktrees =
              [\<lparr>path = Some ''/home/u/acme-worktrees/alice/CO-1/x'',
                branch = Some ''alice/CO-1/x'', head = Some ''def456'', isMain = Some False,
                status = None\<rparr>],
            mainRepoPath = ''/home/u/acme''\<rparr>
   \<and> (\<exists>e. getWorktreeStatus (rawGit examplePorcelain)
              (Some ''/home/u/acme-worktrees/alice/CO-1/x'') = Inl e)"
proof -
  let ?g = "rawGit examplePorcelain"
  have st: "getWorktreeStatus ?g (Some ''/home/u/acme-worktrees/alice/CO-1/x'')
              = Inl (Collaborator ''git'')"
    by (simp add: getWorktreeStatus_def rawGit_def noGit_def)
  have ws: "withStatus ?g
              \<lparr>path = Some ''/home/u/acme-worktrees/alice/CO-1/x'',
               branch = Some ''alice/CO-1/x'', head = Some ''def456'', isMain = Some False\<rparr>
            = \<lparr>path = Some ''/home/u/acme-worktrees/alice/CO-1/x'',
               branch = Some ''alice/CO-1/x'', head = Some ''def456'', isMain = Some False,
               status = None\<rparr>"
    by (simp add: withStatus_def st WorktreeInfo.defs)
  from C9_list_tool [OF getMainRepoRoot_example listWorktrees_example]
  obtain res where "listWorktreesTool ?g None = Inr res" "mainRepoPath res = ''/home/u/acme''"
    "worktrees res = [\<lparr>path = Some ''/home/u/acme-worktrees/alice/CO-1/x'',
               branch = Some ''alice/CO-1/x'', head = Some ''def456'', isMain = Some False,
               status = None\<rparr>]"
    by (auto simp: ws)
  then show ?thesis
    using st by (cases res) simp
qed

section \<open>Properties: divergence of a worktree\<close>

lemma code_digit: "d < 10 \<Longrightarrow> code (char_of (48 + d)) = 48 + d"
  by (simp add: code_def)

lemma showNat_digits: "\<forall>c \<in> set (showNat n). isDigit c"
proof (induction n rule: showNat.induct)
  case (1 n)
  show ?case
  proof (cases "n < 10")
    case True
    then show ?thesis
      by (subst showNat.simps) (simp add: isDigit_def code_digit)
  next
    case False
    have "n mod 10 < 10" by simp
    then have "isDigit (char_of (48 + n mod 10))"
      by (simp add: isDigit_def code_digit)
    with False 1 show ?thesis
      by (subst showNat.simps) simp
  qed
qed

lemma showNat_nonempty: "showNat n \<noteq> []"
  by (subst showNat.simps) simp

lemma digitsValue_snoc:
  "digitsValue (ds @ [c]) = digitsValue ds * 10 + (int (code c) - 48)"
  by (simp add: digitsValue_def)

lemma digitsValue_showNat: "digitsValue (showNat n) = int n"
proof (induction n rule: showNat.induct)
  case (1 n)
  show ?case
  proof (cases "n < 10")
    case True
    then show ?thesis
      by (subst showNat.simps) (simp add: digitsValue_def code_digit)
  next
    case False
    have m: "n mod 10 < 10" by simp
    have "digitsValue (showNat n)
            = digitsValue (showNat (n div 10)) * 10 + (int (code (char_of (48 + n mod 10))) - 48)"
      using False by (subst showNat.simps) (simp add: digitsValue_snoc)
    also have "\<dots> = int (n div 10) * 10 + int (n mod 10)"
      using False 1 by (simp add: code_digit [OF m])
    also have "\<dots> = int n"
      by (simp add: zdiv_int zmod_int)
    finally show ?thesis .
  qed
qed

lemma digit_not_space: "isDigit c \<Longrightarrow> \<not> isSpace c"
  by (auto simp: isDigit_def isSpace_def)

lemma digit_not_sign: "isDigit c \<Longrightarrow> c \<noteq> CHR ''-'' \<and> c \<noteq> CHR ''+'' \<and> c \<noteq> CHR 0x09"
  by (auto simp: isDigit_def code_def)

lemma parseInt_digits:
  assumes "ds \<noteq> []" and "\<forall>c \<in> set ds. isDigit c"
  shows "parseInt ds = Some (digitsValue ds)"
proof -
  from assms obtain d rest where ds: "ds = d # rest" by (cases ds) auto
  with assms have d: "isDigit d" by simp
  have 1: "dropWhile isSpace ds = ds"
    using d ds by (simp add: digit_not_space)
  have 2: "takeWhile isDigit ds = ds"
    using assms(2) by (simp add: takeWhile_eq_all_conv)
  show ?thesis
    using 1 2 assms(1) digit_not_sign [OF d] ds
    by (simp add: parseInt_def Let_def del: takeWhile_eq_all_conv)
qed

lemma parseInt_showNat: "parseInt (showNat n) = Some (int n)"
  by (simp add: parseInt_digits showNat_nonempty showNat_digits digitsValue_showNat)


lemma split_no_sep: "c \<notin> set s \<Longrightarrow> split c s = [s]"
  by (induction s) auto

lemma split_append_sep: "c \<notin> set a \<Longrightarrow> split c (a @ c # b) = a # split c b"
  by (induction a) auto

lemma trim_report:
  assumes "a \<noteq> []" and "\<not> isSpace (hd a)" and "b \<noteq> []" and "\<not> isSpace (last b)"
  shows "trim (a @ [CHR 0x09] @ b @ [CHR 0x0A]) = a @ [CHR 0x09] @ b"
proof -
  from assms(1,2) have 1: "dropWhile isSpace (a @ CHR 0x09 # b @ [CHR 0x0A])
                            = a @ CHR 0x09 # b @ [CHR 0x0A]"
    by (cases a) auto
  have sp: "isSpace (CHR 0x0A)"
    by (simp add: isSpace_def code_def)
  from assms(3,4) have 2: "dropWhile isSpace (rev b @ CHR 0x09 # rev a) = rev b @ CHR 0x09 # rev a"
    by (cases b rule: rev_cases) auto
  show ?thesis
    by (simp add: trim_def 1 sp 2)
qed

lemma countOnly_card: "countOnly a b = card (set a - set b)"
proof -
  have "set (filter (\<lambda>c. c \<notin> set b) a) = set a - set b" by auto
  then show ?thesis
    by (simp add: countOnly_def length_remdups_card_conv)
qed

lemma showNat_hd_last: "\<not> isSpace (hd (showNat n))" "\<not> isSpace (last (showNat n))"
  using showNat_digits [of n] showNat_nonempty [of n]
  by (auto simp: digit_not_space)

lemma showNat_no_tab: "CHR 0x09 \<notin> set (showNat n)"
  using showNat_digits [of n] digit_not_sign by blast

lemma aheadBehind_report:
  assumes "revparse g dir [''--abbrev-ref'', ''HEAD''] = Inr b"
    and "revparse g dir [''--abbrev-ref'', b @ (CHR 0x40 # ''{upstream}'')] = Inr t"
    and "raw g dir [''rev-list'', ''--left-right'', ''--count'', t @ ''...'' @ b]
           = Inr (showNat l @ [CHR 0x09] @ showNat r @ [CHR 0x0A])"
  shows "aheadBehindOf g dir = (int r, int l)"
proof -
  have "trim (showNat l @ [CHR 0x09] @ showNat r @ [CHR 0x0A]) = showNat l @ [CHR 0x09] @ showNat r"
    by (rule trim_report) (simp_all add: showNat_nonempty showNat_hd_last)
  moreover have "split CHR 0x09 (showNat l @ [CHR 0x09] @ showNat r) = [showNat l, showNat r]"
    by (simp add: split_append_sep split_no_sep showNat_no_tab)
  ultimately show ?thesis
    using assms by (simp add: aheadBehindOf_def parseInt_showNat orZero_def)
qed

lemma status_shape:
  assumes "status_files g dir = Inr files"
  shows "getWorktreeStatus g dir
           = Inr \<lparr>clean = (files = []), ahead = fst (aheadBehindOf g dir),
                  behind = snd (aheadBehindOf g dir), uncommitted = (files \<noteq> [])\<rparr>"
  using assms by (simp add: getWorktreeStatus_def split_beta Let_def)

lemma gitOf_fields:
  "status_files (gitOf r) dir = Inr (modified r)"
  "revparse (gitOf r) dir [''--abbrev-ref'', ''HEAD''] = Inr (checkedOut r)"
  "revparse (gitOf r) dir [''--abbrev-ref'', checkedOut r @ (CHR 0x40 # ''{upstream}'')]
     = (case upstreamOf r (checkedOut r) of
          Some t \<Rightarrow> Inr t | None \<Rightarrow> Inl (Collaborator ''no upstream configured''))"
  "upstreamOf r (checkedOut r) = Some t \<Longrightarrow>
   raw (gitOf r) dir [''rev-list'', ''--left-right'', ''--count'', t @ ''...'' @ checkedOut r]
     = Inr (showNat (countOnly (reachable r t) (reachable r (checkedOut r)))
            @ [CHR 0x09]
            @ showNat (countOnly (reachable r (checkedOut r)) (reachable r t))
            @ [CHR 0x0A])"
  by (simp_all add: gitOf_def)

text \<open>
  C6. With git answering as documented, \<open>getWorktreeStatus\<close> returns \<open>behind\<close> equal to the
  number of commits reachable from the configured upstream and not from the checked-out
  branch, and \<open>ahead\<close> equal to the number reachable from the branch and not from the
  upstream; without a configured upstream both are 0. For every git client whose status query
  succeeds the call succeeds, \<open>clean\<close> is true exactly when no file has a pending
  modification, and both counts are 0 when the upstream lookup fails.
\<close>

theorem C6_divergence:
  "getWorktreeStatus (gitOf r) dir
     = Inr \<lparr>clean = (modified r = []),
            ahead = (case upstreamOf r (checkedOut r) of
                       None \<Rightarrow> 0
                     | Some t \<Rightarrow> int (card (set (reachable r (checkedOut r)) - set (reachable r t)))),
            behind = (case upstreamOf r (checkedOut r) of
                        None \<Rightarrow> 0
                      | Some t \<Rightarrow> int (card (set (reachable r t) - set (reachable r (checkedOut r))))),
            uncommitted = (modified r \<noteq> [])\<rparr>
   \<and> (\<forall>files. status_files g dir = Inr files \<longrightarrow>
         (\<exists>a b. getWorktreeStatus g dir
                   = Inr \<lparr>clean = (files = []), ahead = a, behind = b,
                          uncommitted = (files \<noteq> [])\<rparr>))
   \<and> (\<forall>files b e. status_files g dir = Inr files
         \<and> revparse g dir [''--abbrev-ref'', ''HEAD''] = Inr b
         \<and> revparse g dir [''--abbrev-ref'', b @ (CHR 0x40 # ''{upstream}'')] = Inl e \<longrightarrow>
         getWorktreeStatus g dir
           = Inr \<lparr>clean = (files = []), ahead = 0, behind = 0, uncommitted = (files \<noteq> [])\<rparr>)"
proof (intro conjI allI impI)
  show "getWorktreeStatus (gitOf r) dir
     = Inr \<lparr>clean = (modified r = []),
            ahead = (case upstreamOf r (checkedOut r) of
                       None \<Rightarrow> 0
                     | Some t \<Rightarrow> int (card (set (reachable r (checkedOut r)) - set (reachable r t)))),
            behind = (case upstreamOf r (checkedOut r) of
                        None \<Rightarrow> 0
                      | Some t \<Rightarrow> int (card (set (reachable r t) - set (reachable r (checkedOut r))))),
            uncommitted = (modified r \<noteq> [])\<rparr>"
  proof (cases "upstreamOf r (checkedOut r)")
    case None
    then have "aheadBehindOf (gitOf r) dir = (0, 0)"
      by (simp add: aheadBehindOf_def gitOf_fields)
    with None show ?thesis
      by (simp add: status_shape [OF gitOf_fields(1)])
  next
    case (Some t)
    have "aheadBehindOf (gitOf r) dir
            = (int (countOnly (reachable r (checkedOut r)) (reachable r t)),
               int (countOnly (reachable r t) (reachable r (checkedOut r))))"
      using gitOf_fields(4) [OF Some, of dir]
      by (intro aheadBehind_report [where b = "checkedOut r" and t = t])
         (simp_all add: gitOf_fields(1-3) Some)
    with Some show ?thesis
      by (simp add: status_shape [OF gitOf_fields(1)] countOnly_card)
  qed
next
  fix files assume "status_files g dir = Inr files"
  then show "\<exists>a b. getWorktreeStatus g dir
                   = Inr \<lparr>clean = (files = []), ahead = a, behind = b,
                          uncommitted = (files \<noteq> [])\<rparr>"
    by (simp add: status_shape)
next
  fix files b e
  assume a: "status_files g dir = Inr files
         \<and> revparse g dir [''--abbrev-ref'', ''HEAD''] = Inr b
         \<and> revparse g dir [''--abbrev-ref'', b @ (CHR 0x40 # ''{upstream}'')] = Inl e"
  then have "aheadBehindOf g dir = (0, 0)"
    by (simp add: aheadBehindOf_def)
  with a show "getWorktreeStatus g dir
           = Inr \<lparr>clean = (files = []), ahead = 0, behind = 0, uncommitted = (files \<noteq> [])\<rparr>"
    by (simp add: status_shape)
qed

theorem C6_divergence_witness:
  "getWorktreeStatus (gitOf exampleRepo) (Some ''/w'')
     = Inr \<lparr>clean = False, ahead = 3, behind = 1, uncommitted = True\<rparr>
   \<and> getWorktreeStatus (gitOf (exampleRepo\<lparr>modified := [], upstreamOf := (\<lambda>_. None)\<rparr>))
        (Some ''/w'')
     = Inr \<lparr>clean = True, ahead = 0, behind = 0, uncommitted = False\<rparr>"
proof -
  let ?r = "exampleRepo\<lparr>modified := [], upstreamOf := (\<lambda>_. None)\<rparr>"
  have c1: "card (set [1, 2, 3, 4, 5::nat] - set [1, 2, 9]) = 3"
    by code_simp
  have c2: "card (set [1, 2, 9::nat] - set [1, 2, 3, 4, 5]) = 1"
    by code_simp
  have 1: "getWorktreeStatus (gitOf exampleRepo) (Some ''/w'')
     = Inr \<lparr>clean = False, ahead = 3, behind = 1, uncommitted = True\<rparr>"
    using C6_divergence [of exampleRepo "Some ''/w''", THEN conjunct1] c1 c2
    by (simp add: exampleRepo_def)
  have f: "status_files (gitOf ?r) (Some ''/w'') = Inr []"
    "revparse (gitOf ?r) (Some ''/w'') [''--abbrev-ref'', ''HEAD''] = Inr ''alice/CO-1/x''"
    "revparse (gitOf ?r) (Some ''/w'') [''--abbrev-ref'', ''alice/CO-1/x'' @ (CHR 0x40 # ''{upstream}'')]
       = Inl (Collaborator ''no upstream configured'')"
    by (simp_all add: gitOf_def exampleRepo_def)
  have 2: "getWorktreeStatus (gitOf ?r) (Some ''/w'')
     = Inr \<lparr>clean = True, ahead = 0, behind = 0, uncommitted = False\<rparr>"
    using C6_divergence [where g = "gitOf ?r" and dir = "Some ''/w''",
        THEN conjunct2, THEN conjunct2, rule_format, OF conjI [OF f(1) conjI [OF f(2) f(3)]]]
    by simp
  from 1 2 show ?thesis by simp
qed

section \<open>Properties: branch name and path of a new worktree\<close>


































lemma createWorktreeTool_example:
  "createWorktreeTool acmeGit acmeHost ''CO-100'' ''billing feature'' None None
   = ([GitFetch (Some ''/home/u/acme'') ''origin'',
       GitRaw (Some ''/home/u/acme'')
         [''worktree'', ''add'', ''/home/u/acme-worktrees/alice/CO-100/billing-feature'',
          ''-b'', ''alice/CO-100/billing-feature'', ''origin/master''],
       FsMkdir ''/home/u/acme-worktrees/alice/CO-100/billing-feature'',
       FsCopyFile ''/home/u/acme/.env''
         ''/home/u/acme-worktrees/alice/CO-100/billing-feature/.env''],
      Inr \<lparr>worktreePath = ''/home/u/acme-worktrees/alice/CO-100/billing-feature'',
           branchFullName = ''alice/CO-100/billing-feature'',
           resolvedUsername = ''alice'',
           usernameSource = manual_config,
           repoName = ''acme'',
           dependenciesInstalled = False,
           installedWith = None,
           envFilesCopied = 1\<rparr>)"
  by code_simp


section \<open>Properties: pruning of empty directories\<close>


lemma pruneLoop_stop1:
  "\<not> mayPrune h cur \<Longrightarrow> pruneLoop h cur acc = ([], Inr acc)"
  by (subst pruneLoop.simps) (auto simp: mayPrune_def ret_def)

lemma pruneLoop_stop2:
  "mayPrune h cur \<Longrightarrow> readdir h cur = Inl e \<Longrightarrow> pruneLoop h cur acc = ([], Inr acc)"
  by (subst pruneLoop.simps) (auto simp: mayPrune_def ret_def)

lemma pruneLoop_stop3:
  "mayPrune h cur \<Longrightarrow> readdir h cur = Inr (x # xs) \<Longrightarrow> pruneLoop h cur acc = ([], Inr acc)"
  by (subst pruneLoop.simps) (auto simp: mayPrune_def ret_def)

lemma pruneLoop_stop4:
  "mayPrune h cur \<Longrightarrow> readdir h cur = Inr [] \<Longrightarrow> rmdir h cur = Inl e \<Longrightarrow>
     pruneLoop h cur acc = ([FsRmdir cur], Inr acc)"
  by (subst pruneLoop.simps) (auto simp: mayPrune_def ret_def)

lemma pruneLoop_step:
  "mayPrune h cur \<Longrightarrow> readdir h cur = Inr [] \<Longrightarrow> rmdir h cur = Inr u \<Longrightarrow>
     pruneLoop h cur acc
       = (FsRmdir cur # fst (pruneLoop h (dirname cur) (acc @ [cur])),
          snd (pruneLoop h (dirname cur) (acc @ [cur])))"
  by (subst pruneLoop.simps) (auto simp: mayPrune_def Let_def)

lemma pruneLoop_cases:
  obtains (stop) "pruneLoop h cur acc = ([], Inr acc)"
      "\<not> (mayPrune h cur \<and> readdir h cur = Inr [])"
    | (failed) e where "pruneLoop h cur acc = ([FsRmdir cur], Inr acc)"
      "mayPrune h cur" "readdir h cur = Inr []" "rmdir h cur = Inl e"
    | (step) "pruneLoop h cur acc
       = (FsRmdir cur # fst (pruneLoop h (dirname cur) (acc @ [cur])),
          snd (pruneLoop h (dirname cur) (acc @ [cur])))"
      "mayPrune h cur" "readdir h cur = Inr []" "rmdir h cur = Inr ()"
proof (cases "mayPrune h cur")
  case False
  then show ?thesis using stop pruneLoop_stop1 by blast
next
  case True
  show ?thesis
  proof (cases "readdir h cur")
    case (Inl e)
    then show ?thesis using stop True pruneLoop_stop2 by auto
  next
    case (Inr entries)
    show ?thesis
    proof (cases entries)
      case (Cons x xs)
      then show ?thesis using stop True Inr pruneLoop_stop3 by auto
    next
      case Nil
      show ?thesis
      proof (cases "rmdir h cur")
        case (Inl e)
        then show ?thesis using failed True Inr Nil pruneLoop_stop4 by auto
      next
        case (Inr u)
        then show ?thesis using step True \<open>readdir h cur = Inr entries\<close> Nil pruneLoop_step by auto
      qed
    qed
  qed
qed




lemma pruneLoop_only_rmdir:
  "fst (pruneLoop h cur acc) = map FsRmdir (rmdirsOf (fst (pruneLoop h cur acc)))"
proof (induction h cur acc rule: pruneLoop.induct)
  case (1 h cur acc)
  show ?case
  proof (cases rule: pruneLoop_cases [of h cur acc])
    case stop
    then show ?thesis by simp
  next
    case (failed e)
    then show ?thesis by simp
  next
    case step
    from step(2) have g:
      "cur \<noteq> ''/'' \<and> Some cur \<noteq> env_HOME h \<and> includesStr cur ''-worktrees''"
      unfolding mayPrune_def .
    have ih: "fst (pruneLoop h (dirname cur) (acc @ [cur]))
            = map FsRmdir (rmdirsOf (fst (pruneLoop h (dirname cur) (acc @ [cur]))))"
      by (rule 1 [OF g step(3) _ step(4)]) simp
    show ?thesis
      using ih by (simp add: step(1))
  qed
qed


lemma ancestors_length: "length (ancestors n p) = n"
  by (induction n arbitrary: p) auto

















section \<open>Properties: pull requests from the trunk\<close>

lemma createPullRequest_trunk:
  assumes "revparse g (Some target) [''--abbrev-ref'', ''HEAD''] = Inr b"
    and "b = ''master'' \<or> b = ''main''"
  shows "createPullRequest g h octokit target t body draft = ([], Inl CannotCreateFromTrunk)"
  using assms by (auto simp: createPullRequest_def andThen_def query_def throw_def)

text \<open>
  C4 (as amended). When the HEAD of the worktree is \<open>master\<close> or \<open>main\<close>, the createPR
  operation fails and attempts no change at all, so no request to the hosted provider. The
  failure is \<open>CannotCreateFromTrunk\<close> when the caller gave a title and a body, and when the
  content is generated from the commits; when a title or a body is missing and the generation
  of the content fails, the failure is that of the generation. The outcome does not depend on
  the host or on the hosted provider: neither is consulted.
\<close>

theorem C4_trunk_refused:
  assumes "revparse g (Some target) [''--abbrev-ref'', ''HEAD''] = Inr b"
    and "b = ''master'' \<or> b = ''main''"
  shows "fst (createPRTool g h octokit target givenTitle givenBody draft) = []
    \<and> (\<exists>e. snd (createPRTool g h octokit target givenTitle givenBody draft) = Inl e)
    \<and> (truthy givenTitle \<and> truthy givenBody \<longrightarrow>
         snd (createPRTool g h octokit target givenTitle givenBody draft)
           = Inl CannotCreateFromTrunk)
    \<and> (\<forall>content. generatePRContent g target = Inr content \<longrightarrow>
         snd (createPRTool g h octokit target givenTitle givenBody draft)
           = Inl CannotCreateFromTrunk)
    \<and> (\<forall>e. \<not> (truthy givenTitle \<and> truthy givenBody) \<and> generatePRContent g target = Inl e \<longrightarrow>
         snd (createPRTool g h octokit target givenTitle givenBody draft) = Inl e)
    \<and> createPRTool g h' octokit' target givenTitle givenBody draft
        = createPRTool g h octokit target givenTitle givenBody draft"
proof -
  note refuse = createPullRequest_trunk [OF assms]
  show ?thesis
  proof (cases "truthy givenTitle \<and> truthy givenBody")
    case True
    then have "\<And>h octokit. createPRTool g h octokit target givenTitle givenBody draft
                 = ([], Inl CannotCreateFromTrunk)"
      by (simp add: createPRTool_def andThen_def ret_def refuse)
    with True show ?thesis by simp
  next
    case False
    show ?thesis
    proof (cases "generatePRContent g target")
      case (Inl e)
      with False have "\<And>h octokit. createPRTool g h octokit target givenTitle givenBody draft
                         = ([], Inl e)"
        by (auto simp: createPRTool_def andThen_def query_def)
      with False Inl show ?thesis by auto
    next
      case (Inr content)
      with False have "\<And>h octokit. createPRTool g h octokit target givenTitle givenBody draft
                         = ([], Inl CannotCreateFromTrunk)"
        by (auto simp: createPRTool_def andThen_def query_def ret_def refuse)
      with False Inr show ?thesis by auto
    qed
  qed
qed

text \<open>
  C4 as stated fails without a title and a body when HEAD is \<open>master\<close> and has no commit
  beyond \<open>origin/master\<close>: the content is generated first, and the failure is \<open>NoCommits\<close>.
\<close>

theorem C4_no_commits_counterexample:
  "revparse trunkGit (Some ''/home/u/acme'') [''--abbrev-ref'', ''HEAD''] = Inr ''master''
   \<and> createPRTool trunkGit noHost acceptingHub ''/home/u/acme'' None None False
       = ([], Inl NoCommits)
   \<and> snd (createPRTool trunkGit noHost acceptingHub ''/home/u/acme'' None None False)
       \<noteq> Inl CannotCreateFromTrunk"
  by code_simp

theorem C4_trunk_refused_witness:
  "createPRTool trunkGit noHost acceptingHub ''/home/u/acme'' (Some ''Add x'') (Some ''Body'') True
     = ([], Inl CannotCreateFromTrunk)
   \<and> createPRTool (trunkGit\<lparr>log_messages := (\<lambda>dir from to. Inr [''Add x'', ''Fix y''])\<rparr>) noHost
        acceptingHub ''/home/u/acme'' None None False
     = ([], Inl CannotCreateFromTrunk)"
proof -
  let ?g = "trunkGit\<lparr>log_messages := (\<lambda>dir from to. Inr [''Add x'', ''Fix y''])\<rparr>"
  have h1: "revparse trunkGit (Some ''/home/u/acme'') [''--abbrev-ref'', ''HEAD''] = Inr ''master''"
    by (simp add: trunkGit_def)
  have h2: "revparse ?g (Some ''/home/u/acme'') [''--abbrev-ref'', ''HEAD''] = Inr ''master''"
    by (simp add: trunkGit_def)
  have t: "truthy (Some ''Add x'') \<and> truthy (Some ''Body'')"
    by (simp add: truthy_def)
  have c: "generatePRContent ?g ''/home/u/acme''
             = Inr \<lparr>draft_title = ''Add x'',
                    draft_body = ''## Commits'' @ [CHR 0x0A, CHR 0x0A] @ ''- Add x''
                                 @ [CHR 0x0A] @ ''- Fix y''\<rparr>"
    by code_simp
  have 1: "createPRTool trunkGit noHost acceptingHub ''/home/u/acme'' (Some ''Add x'')
             (Some ''Body'') True = ([], Inl CannotCreateFromTrunk)"
    using C4_trunk_refused [OF h1, of noHost acceptingHub "Some ''Add x''" "Some ''Body''" True] t
    by (simp add: prod_eq_iff)
  have 2: "createPRTool ?g noHost acceptingHub ''/home/u/acme'' None None False
             = ([], Inl CannotCreateFromTrunk)"
    using C4_trunk_refused [OF h2, of noHost acceptingHub None None False] c
    by (simp add: prod_eq_iff)
  from 1 2 show ?thesis by simp
qed

section \<open>Properties: the base of a new worktree\<close>

lemma ok_andThen:
  "allMasterOrNone m \<Longrightarrow> (\<And>x. allMasterOrNone (f x)) \<Longrightarrow> allMasterOrNone (andThen m f)"
  by (auto simp: allMasterOrNone_def andThen_def split: sum.splits)

lemma ok_tryCatch:
  "allMasterOrNone m \<Longrightarrow> (\<And>e. allMasterOrNone (handler e)) \<Longrightarrow>
   allMasterOrNone (tryCatch m handler)"
  by (auto simp: allMasterOrNone_def tryCatch_def split: sum.splits)

lemma ok_pure:
  "allMasterOrNone (ret x)" "allMasterOrNone (throw e)" "allMasterOrNone (query a)"
  by (simp_all add: allMasterOrNone_def ret_def throw_def query_def)

lemma ok_perform: "masterOrNone change \<Longrightarrow> allMasterOrNone (perform change a)"
  by (simp add: allMasterOrNone_def perform_def)

lemma ok_copyEach: "allMasterOrNone (copyEach h a b files n)"
proof (induction files arbitrary: n)
  case Nil
  then show ?case by (simp add: ok_pure)
next
  case (Cons f files)
  show ?case
    unfolding copyEach.simps Let_def
    by (intro ok_andThen ok_perform Cons.IH) (simp_all add: masterOrNone_def)
qed

lemma ok_copyEnvFiles: "allMasterOrNone (copyEnvFiles h a b)"
  unfolding copyEnvFiles_def by (intro ok_andThen ok_pure ok_copyEach)

lemma ok_installDependencies: "allMasterOrNone (installDependencies h dir)"
proof (cases "detectPackageManager h dir")
  case None
  then show ?thesis by (simp add: installDependencies_def ok_pure)
next
  case (Some pm)
  have "allMasterOrNone
          (tryCatch
            (andThen (perform (Exec (pm @ '' install'') (Some dir))
                        (execAsync h (pm @ '' install'') (Some dir)))
               (\<lambda>_. ret \<lparr>success = True, packageManager = Some pm\<rparr>))
            (\<lambda>_. throw (InstallFailed pm)))"
    by (intro ok_tryCatch ok_andThen ok_perform ok_pure) (simp add: masterOrNone_def)
  with Some show ?thesis by (simp add: installDependencies_def)
qed

lemma ok_createWorktree_master:
  "allMasterOrNone (createWorktree g r p b (Some ''origin/master''))"
proof -
  have "allMasterOrNone
          (andThen (perform (GitFetch (Some r) ''origin'') (fetch g (Some r) ''origin''))
             (\<lambda>_. andThen (ret ''origin/master'')
               (\<lambda>base. andThen
                   (perform (GitRaw (Some r) [''worktree'', ''add'', p, ''-b'', b, base])
                      (raw g (Some r) [''worktree'', ''add'', p, ''-b'', b, base]))
                   (\<lambda>_. ret ()))))"
    by (auto simp: allMasterOrNone_def andThen_def perform_def ret_def masterOrNone_def
          split: sum.splits)
  then show ?thesis by (simp add: createWorktree_def)
qed

lemma createWorktreeTool_base:
  "list_all masterOrNone (fst (createWorktreeTool g h t d cwd ide))"
proof -
  consider "t = [] \<or> trim t = []" | "\<not> (t = [] \<or> trim t = [])" "d = [] \<or> trim d = []"
    | "\<not> (t = [] \<or> trim t = [])" "\<not> (d = [] \<or> trim d = [])"
    by blast
  then have "allMasterOrNone (createWorktreeTool g h t d cwd ide)"
  proof cases
    case 1
    then show ?thesis
      unfolding createWorktreeTool_def by (simp only: if_True ok_pure)
  next
    case 2
    then show ?thesis
      unfolding createWorktreeTool_def by (simp only: if_True if_False ok_pure)
  next
    case 3
    then show ?thesis
      unfolding createWorktreeTool_def Let_def
      apply (simp only: if_False)
      apply (rule ok_andThen, rule ok_pure)
      apply (rule ok_andThen, rule ok_pure)
      apply (rule ok_andThen, rule ok_createWorktree_master)
      apply (rule ok_andThen, rule ok_tryCatch, rule ok_installDependencies, rule ok_pure)
      apply (rule ok_andThen, rule ok_tryCatch, rule ok_copyEnvFiles, rule ok_pure)
      apply (rule ok_pure)
      done
  qed
  then show ?thesis by (simp add: allMasterOrNone_def)
qed

lemma createWorktree_default_base:
  "createWorktree g r p b None
     = (case fetch g (Some r) ''origin'' of
          Inl e \<Rightarrow> ([GitFetch (Some r) ''origin''], Inl e)
        | Inr _ \<Rightarrow>
            (case getDefaultBranch g r of
               Inl e \<Rightarrow> ([GitFetch (Some r) ''origin''], Inl e)
             | Inr base \<Rightarrow>
                 ([GitFetch (Some r) ''origin'',
                   GitRaw (Some r) [''worktree'', ''add'', p, ''-b'', b, base]],
                  (case raw g (Some r) [''worktree'', ''add'', p, ''-b'', b, base] of
                     Inl e \<Rightarrow> Inl e | Inr _ \<Rightarrow> Inr ()))))"
  by (simp add: createWorktree_def andThen_def perform_def query_def ret_def split: sum.splits)

text \<open>
  C1. The create operation passes the base \<open>origin/master\<close> to \<open>createWorktree\<close> in every
  call, so the trunk is never resolved. In a repository whose remote has \<open>origin/main\<close>,
  where the trunk resolves to \<open>origin/main\<close> and \<open>createWorktree\<close> without a base branches
  from it, the create operation succeeds and its only \<open>worktree add\<close> branches from
  \<open>origin/master\<close>. In no run does the create operation branch from another base.
\<close>

theorem C1_create_from_master:
  "getDefaultBranch acmeGit ''/home/u/acme'' = Inr ''origin/main''
   \<and> map baseOfAdd
        (fst (createWorktreeTool acmeGit acmeHost ''CO-100'' ''billing feature'' None None))
      = [None, Some ''origin/master'', None, None]
   \<and> (\<exists>res. snd (createWorktreeTool acmeGit acmeHost ''CO-100'' ''billing feature'' None None)
               = Inr res)
   \<and> map baseOfAdd
        (fst (createWorktree acmeGit ''/home/u/acme''
                ''/home/u/acme-worktrees/alice/CO-100/billing-feature''
                ''alice/CO-100/billing-feature'' None))
      = [None, Some ''origin/main'']
   \<and> list_all masterOrNone (fst (createWorktreeTool g h ticket description cwd openIde))"
proof -
  have 1: "getDefaultBranch acmeGit ''/home/u/acme'' = Inr ''origin/main''"
    by code_simp
  have 2: "map baseOfAdd
        (fst (createWorktree acmeGit ''/home/u/acme''
                ''/home/u/acme-worktrees/alice/CO-100/billing-feature''
                ''alice/CO-100/billing-feature'' None))
      = [None, Some ''origin/main'']"
    by code_simp
  from 1 2 show ?thesis
    by (simp add: createWorktreeTool_example createWorktreeTool_base)
qed

end
